theory Spec2Isabelle
  imports Complex_Main "HOL-Library.Multiset"
begin

section \<open>Dispa-SET preprocessing: the clustering of power plants\<close>

text \<open>
  A shallow embedding of \<^verbatim>\<open>clustering\<close> and its helpers \<^verbatim>\<open>_mylogspace\<close> and
  \<^verbatim>\<open>_find_nearest\<close> of \<^verbatim>\<open>DispaSET/preprocessing/utils.py\<close>.

  Numbers are real numbers: the float64 cells of the data frame are idealised, so that
  a sum or a weighted average is exact. A quotient by zero is inf or nan in float64 and
  no real number. In the merge rules and in the rounding of \<^verbatim>\<open>Nunits\<close> the model
  ends such a run with \<open>ZeroDivision\<close>, so that every statement about a run that
  returns is about quotients that are defined. The last step, the ramping cost of
  \<^verbatim>\<open>LP clustered\<close>, writes its quotient and returns the table as the code does.
\<close>

subsection \<open>Data model\<close>

text \<open>
  One row of the \<^verbatim>\<open>plants\<close> data frame. The column \<^verbatim>\<open>Unit\<close> holds a string, the
  categorical columns hold a string or a missing value (\<open>None\<close>, pandas' NaN), every
  other column holds a number. Cells are read by column name; which columns the frame
  really has is the list \<open>columns\<close> of the frame.
\<close>

record plant =
  Unit :: string
  cat :: "string \<Rightarrow> string option"
  num :: "string \<Rightarrow> real"

record frame =
  columns :: "string list"
  rows :: "plant list"

text \<open>
  The errors of the function: \<^verbatim>\<open>logging.error(..); sys.exit(1)\<close> for a missing
  required column and for an unknown method, and the exceptions the body can raise.
\<close>

datatype error =
    MissingColumn string
  | UnknownMethod string
  | KeyError string
  | ValueError
  | NameError string
  | ZeroDivision

definition fatal :: "error \<Rightarrow> bool" where
  "fatal e = (case e of MissingColumn c \<Rightarrow> True | UnknownMethod m \<Rightarrow> True | _ \<Rightarrow> False)"

text \<open>The messages written with \<^verbatim>\<open>logging.warn\<close> and \<^verbatim>\<open>logging.info\<close>.\<close>

datatype log_entry =
    Warn_NotOnlyOnes
  | Warn_LP_Aggregates
  | Info_Clustered nat nat
  | Warn_NoCluster

text \<open>The returned dictionary \<^verbatim>\<open>mapping\<close> with its two keys.\<close>

record mapping =
  NewIndex :: "nat \<rightharpoonup> string"
  FormerIndexes :: "string \<rightharpoonup> nat list"

text \<open>
  Row \<open>j\<close> of \<^verbatim>\<open>plants_merged\<close> together with \<^verbatim>\<open>map_plant_orig[j]\<close> and
  \<^verbatim>\<open>fingerprints_merged[j]\<close>: the three grow together, one entry per cluster.
\<close>

record cluster =
  merged :: plant
  plant_orig :: "nat list"
  fingerprint_merged :: "nat list"

subsection \<open>Checking the input\<close>

definition required_inputs :: "string list" where
  "required_inputs = [''Unit'', ''PowerCapacity'', ''PartLoadMin'', ''RampUpRate'',
     ''RampDownRate'', ''StartUpTime'', ''MinUpTime'', ''MinDownTime'', ''NoLoadCost'',
     ''StartUpCost'', ''Efficiency'']"

definition check_required :: "frame \<Rightarrow> error option" where
  "check_required plants =
     (case filter (\<lambda>input. input \<notin> set (columns plants)) required_inputs of
        [] \<Rightarrow> None
      | input # _ \<Rightarrow> Some (MissingColumn input))"

text \<open>\<^verbatim>\<open>plants[key] = v\<close> for a number \<open>v\<close>: the column is added when it is missing.\<close>

definition set_column :: "string \<Rightarrow> real \<Rightarrow> frame \<Rightarrow> frame" where
  "set_column key v plants =
     \<lparr>columns = (if key \<in> set (columns plants) then columns plants else columns plants @ [key]),
      rows = map (\<lambda>p. p\<lparr>num := (num p)(key := v)\<rparr>) (rows plants)\<rparr>"

definition default_Nunits :: "frame \<Rightarrow> frame" where
  "default_Nunits plants =
     (if ''Nunits'' \<in> set (columns plants) then plants else set_column ''Nunits'' 1 plants)"

definition only_ones :: "frame \<Rightarrow> bool" where
  "only_ones plants = list_all (\<lambda>p. num p ''Nunits'' = 1) (rows plants)"

definition capacity_keys :: "string list" where
  "capacity_keys = [''PowerCapacity'', ''STOCapacity'', ''STOMaxChargingPower'', ''InitialPower'']"

text \<open>
  \<^verbatim>\<open>plants.loc[:,key] = plants.loc[:,'Nunits'] * plants.loc[:,key]\<close> for the capacity
  keys the frame has, then \<^verbatim>\<open>plants['Nunits'] = 1\<close>.
\<close>

definition expand_plant :: "string list \<Rightarrow> plant \<Rightarrow> plant" where
  "expand_plant cols p =
     p\<lparr>num := (\<lambda>key. if key = ''Nunits'' then 1
                     else if key \<in> set capacity_keys \<and> key \<in> set cols
                          then num p ''Nunits'' * num p key
                     else num p key)\<rparr>"

definition expand_Nunits :: "frame \<Rightarrow> frame" where
  "expand_Nunits plants = plants\<lparr>rows := map (expand_plant (columns plants)) (rows plants)\<rparr>"

text \<open>
  The check of the method: the table the loop will read, the flag \<^verbatim>\<open>OnlyOnes\<close> and
  the warnings, or the fatal error of an unknown method.
\<close>

definition check_method :: "string \<Rightarrow> frame \<Rightarrow> error + (frame \<times> bool \<times> log_entry list)" where
  "check_method method plants =
     (let OnlyOnes = only_ones plants in
      if method \<in> set [''Standard'', ''MILP''] then
        (if \<not> OnlyOnes then Inr (plants, OnlyOnes, [Warn_NotOnlyOnes])
         else Inr (plants, OnlyOnes, []))
      else if method = ''LP clustered'' then
        (if \<not> OnlyOnes then Inr (expand_Nunits plants, True, [Warn_LP_Aggregates])
         else Inr (plants, OnlyOnes, []))
      else if method = ''LP'' then Inr (plants, OnlyOnes, [])
      else if method = ''Integer clustering'' then Inr (plants, OnlyOnes, [])
      else if method = ''No clustering'' then Inr (plants, OnlyOnes, [])
      else Inl (UnknownMethod method))"

subsection \<open>Fingerprints\<close>

text \<open>
  \<^verbatim>\<open>np.linspace(a, b, N)\<close>: \<open>N\<close> points from \<open>a\<close> to \<open>b\<close>, the single point \<open>a\<close>
  when \<open>N = 1\<close>. \<^verbatim>\<open>np.logspace(0, e, N)\<close> is \<open>10\<close> to the power of each point of
  \<^verbatim>\<open>np.linspace(0, e, N)\<close>.
\<close>

definition linspace :: "real \<Rightarrow> real \<Rightarrow> nat \<Rightarrow> real list" where
  "linspace a b N =
     (if N = 1 then [a]
      else map (\<lambda>k. a + real k * ((b - a) / real (N - 1))) [0..<N])"

definition logspace :: "real \<Rightarrow> real \<Rightarrow> nat \<Rightarrow> real list" where
  "logspace a b N = map (\<lambda>y. 10 powr y) (linspace a b N)"

definition mylogspace :: "real \<Rightarrow> real \<Rightarrow> nat \<Rightarrow> real list" where
  "mylogspace low high N =
     map (\<lambda>y. y - (low + 1)) (logspace 0 (log 10 (high + low + 1)) N)"

text \<open>
  \<^verbatim>\<open>argmin\<close> of a numpy array: the first index of the least element; on an empty
  array it raises ValueError.
\<close>

fun argmin_from :: "real list \<Rightarrow> nat \<Rightarrow> real \<Rightarrow> nat \<Rightarrow> nat" where
  "argmin_from [] k best idx = idx"
| "argmin_from (x # xs) k best idx =
     (if x < best then argmin_from xs (Suc k) x k else argmin_from xs (Suc k) best idx)"

definition argmin :: "real list \<Rightarrow> error + nat" where
  "argmin xs = (case xs of [] \<Rightarrow> Inl ValueError | x # rest \<Rightarrow> Inr (argmin_from rest 1 x 0))"

definition find_nearest :: "real list \<Rightarrow> real \<Rightarrow> error + nat" where
  "find_nearest array v = argmin (map (\<lambda>a. \<bar>a - v\<bar>) array)"

text \<open>The dictionary \<^verbatim>\<open>bounds\<close>, in the order the fingerprint reads it.\<close>

definition bounds :: "nat \<Rightarrow> (string \<times> real list) list" where
  "bounds Nslices =
     [(''PartLoadMin'', linspace 0 1 Nslices),
      (''RampUpRate'', linspace 0 1 Nslices),
      (''RampDownRate'', linspace 0 1 Nslices),
      (''StartUpTime'', mylogspace 0 36 Nslices),
      (''MinUpTime'', mylogspace 0 168 Nslices),
      (''MinDownTime'', mylogspace 0 168 Nslices),
      (''NoLoadCost'', linspace 0 50 Nslices),
      (''StartUpCost'', linspace 0 500 Nslices),
      (''Efficiency'', linspace 0 1 Nslices)]"

text \<open>A list of results is a result: the first error, or all the values.\<close>

fun sequence :: "('e + 'a) list \<Rightarrow> 'e + 'a list" where
  "sequence [] = Inr []"
| "sequence (r # rs) =
     (case r of
        Inl e \<Rightarrow> Inl e
      | Inr x \<Rightarrow> (case sequence rs of Inl e \<Rightarrow> Inl e | Inr xs \<Rightarrow> Inr (x # xs)))"

definition fingerprint :: "nat \<Rightarrow> plant \<Rightarrow> error + nat list" where
  "fingerprint Nslices p =
     sequence (map (\<lambda>(key, array). find_nearest array (num p key)) (bounds Nslices))"

subsection \<open>The merge test\<close>

definition string_keys :: "string list" where
  "string_keys = [''Zone'', ''Technology'', ''Fuel'', ''CHPType'']"

definition fillna :: "string option \<Rightarrow> string" where
  "fillna c = (case c of None \<Rightarrow> [] | Some s \<Rightarrow> s)"

definition fillna_plant :: "plant \<Rightarrow> plant" where
  "fillna_plant p =
     p\<lparr>cat := (\<lambda>key. if key \<in> set string_keys then Some (fillna (cat p key)) else cat p key)\<rparr>"

text \<open>
  \<^verbatim>\<open>for key in string_keys: plants[key].fillna('',inplace=True)\<close>: reading a column
  the frame does not have raises KeyError.
\<close>

definition fillna_frame :: "frame \<Rightarrow> error + frame" where
  "fillna_frame plants =
     (case filter (\<lambda>key. key \<notin> set (columns plants)) string_keys of
        [] \<Rightarrow> Inr (plants\<lparr>rows := map fillna_plant (rows plants)\<rparr>)
      | key # _ \<Rightarrow> Inl (KeyError key))"

definition same_type :: "plant \<Rightarrow> plant \<Rightarrow> bool" where
  "same_type p m = list_all (\<lambda>key. fillna (cat p key) = fillna (cat m key)) string_keys"

definition low_pmin :: "real \<Rightarrow> plant \<Rightarrow> bool" where
  "low_pmin PartLoadMax p = (num p ''PartLoadMin'' \<le> PartLoadMax)"

definition low_pmax :: "real \<Rightarrow> plant \<Rightarrow> bool" where
  "low_pmax Pmax p = (num p ''PowerCapacity'' \<le> Pmax)"

definition highly_flexible :: "plant \<Rightarrow> bool" where
  "highly_flexible p =
     (num p ''RampUpRate'' > 1 / 60 \<and> num p ''RampDownRate'' > 1 / 60 \<and>
      num p ''StartUpTime'' < 1 \<and> num p ''MinDownTime'' \<le> 1 \<and> num p ''MinUpTime'' \<le> 1)"

text \<open>The fingerprint and threshold part of the variable \<^verbatim>\<open>cluster\<close>.\<close>

definition eligible :: "real \<Rightarrow> real \<Rightarrow> plant \<Rightarrow> nat list \<Rightarrow> cluster \<Rightarrow> bool" where
  "eligible PartLoadMax Pmax p fp c =
     ((fp = fingerprint_merged c \<and> low_pmin PartLoadMax p) \<or> highly_flexible p \<or> low_pmax Pmax p)"

definition cluster_test :: "bool \<Rightarrow> real \<Rightarrow> real \<Rightarrow> plant \<Rightarrow> nat list \<Rightarrow> cluster \<Rightarrow> bool" where
  "cluster_test OnlyOnes PartLoadMax Pmax p fp c =
     (OnlyOnes \<and> same_type p (merged c) \<and> eligible PartLoadMax Pmax p fp c)"

text \<open>The branch of the \<^verbatim>\<open>if\<close>/\<^verbatim>\<open>elif\<close> chain taken for plant \<open>p\<close> and cluster \<open>c\<close>.\<close>

datatype branch = Merge_Standard | Merge_LP | Merge_Integer | No_Merge

definition branch_of ::
  "string \<Rightarrow> bool \<Rightarrow> real \<Rightarrow> real \<Rightarrow> plant \<Rightarrow> nat list \<Rightarrow> cluster \<Rightarrow> branch" where
  "branch_of method OnlyOnes PartLoadMax Pmax p fp c =
     (if method \<in> set [''Standard'', ''MILP''] \<and> cluster_test OnlyOnes PartLoadMax Pmax p fp c
        then Merge_Standard
      else if method = ''LP clustered'' \<and> same_type p (merged c) \<and> OnlyOnes then Merge_LP
      else if method = ''Integer clustering'' \<and> same_type p (merged c) then Merge_Integer
      else No_Merge)"

subsection \<open>The reduction rules\<close>

definition weighted_standard :: "string list" where
  "weighted_standard = [''RampUpRate'', ''RampDownRate'', ''MinUpTime'', ''MinDownTime'',
     ''NoLoadCost'', ''Efficiency'', ''MinEfficiency'', ''STOChargingEfficiency'',
     ''CO2Intensity'', ''STOSelfDischarge'', ''CHPPowerToHeat'', ''CHPPowerLossFactor'']"

definition weighted_LP :: "string list" where
  "weighted_LP = [''RampUpRate'', ''RampDownRate'', ''MinUpTime'', ''MinDownTime'',
     ''NoLoadCost'', ''Efficiency'', ''MinEfficiency'', ''STOChargingEfficiency'',
     ''CO2Intensity'', ''STOSelfDischarge'']"

definition min_keys :: "string list" where
  "min_keys = [''PartLoadMin'', ''StartUpTime'']"

definition weighted_integer :: "string list" where
  "weighted_integer = [''PowerCapacity'', ''RampUpRate'', ''RampDownRate'', ''MinUpTime'',
     ''MinDownTime'', ''NoLoadCost'', ''Efficiency'', ''MinEfficiency'',
     ''STOChargingEfficiency'', ''CO2Intensity'', ''STOSelfDischarge'', ''STOCapacity'',
     ''STOMaxChargingPower'', ''InitialPower'', ''PartLoadMin'', ''StartUpTime'',
     ''RampingCost'']"

text \<open>
  The body of \<^verbatim>\<open>for key in plants_merged\<close> in the Standard branch: the new cell of
  column \<open>key\<close> of the merged row \<open>m\<close> when plant \<open>p\<close> is added to it.
\<close>

definition ramping_cost :: "plant \<Rightarrow> plant \<Rightarrow> real" where
  "ramping_cost m p =
     (let P_old = num m ''PowerCapacity''; P_add = num p ''PowerCapacity'';
          Cost_to_fullload = P_add * (1 - num p ''PartLoadMin'') * num p ''RampingCost''
                             + num p ''StartUpCost''
      in (P_old * num m ''RampingCost'' + Cost_to_fullload) / (P_old + P_add))"

definition standard_key :: "plant \<Rightarrow> plant \<Rightarrow> string \<Rightarrow> real" where
  "standard_key m p key =
     (let P_old = num m ''PowerCapacity''; P_add = num p ''PowerCapacity'' in
      if key \<in> set weighted_standard
        then (num m key * P_old + num p key * P_add) / (P_add + P_old)
      else if key \<in> set capacity_keys then num m key + num p key
      else if key \<in> set min_keys
        then min (num m key * P_old) (num p key * P_add) / (P_add + P_old)
      else if key = ''RampingCost'' then ramping_cost m p
      else if key = ''Nunits'' then 1
      else num m key)"

definition LP_key :: "plant \<Rightarrow> plant \<Rightarrow> string \<Rightarrow> real" where
  "LP_key m p key =
     (let P_old = num m ''PowerCapacity''; P_add = num p ''PowerCapacity'' in
      if key \<in> set weighted_LP
        then (num m key * P_old + num p key * P_add) / (P_add + P_old)
      else if key \<in> set capacity_keys then num m key + num p key
      else if key \<in> set min_keys then 0
      else if key = ''RampingCost'' then ramping_cost m p
      else if key = ''Nunits'' then 1
      else num m key)"

definition integer_key :: "plant \<Rightarrow> plant \<Rightarrow> string \<Rightarrow> real" where
  "integer_key m p key =
     (if key \<in> set weighted_integer
        then (num m key * num m ''Nunits'' + num p key * num p ''Nunits'')
             / (num m ''Nunits'' + num p ''Nunits'')
      else num m key)"

text \<open>
  The merged row after the loop over the keys. The divisor is the same for every key
  that divides: when it is zero and the frame has such a key, there is no result.
\<close>

definition merge_standard :: "string list \<Rightarrow> plant \<Rightarrow> plant \<Rightarrow> error + plant" where
  "merge_standard cols m p =
     (if num p ''PowerCapacity'' + num m ''PowerCapacity'' = 0 \<and>
         list_ex (\<lambda>key. key \<in> set (weighted_standard @ min_keys @ [''RampingCost''])) cols
        then Inl ZeroDivision
      else Inr (m\<lparr>num := (\<lambda>key. if key \<in> set cols then standard_key m p key else num m key)\<rparr>))"

definition merge_LP :: "string list \<Rightarrow> plant \<Rightarrow> plant \<Rightarrow> error + plant" where
  "merge_LP cols m p =
     (if num p ''PowerCapacity'' + num m ''PowerCapacity'' = 0 \<and>
         list_ex (\<lambda>key. key \<in> set (weighted_LP @ [''RampingCost''])) cols
        then Inl ZeroDivision
      else Inr (m\<lparr>num := (\<lambda>key. if key \<in> set cols then LP_key m p key else num m key)\<rparr>))"

definition merge_integer :: "string list \<Rightarrow> plant \<Rightarrow> plant \<Rightarrow> error + plant" where
  "merge_integer cols m p =
     (if num m ''Nunits'' + num p ''Nunits'' = 0 \<and>
         list_ex (\<lambda>key. key \<in> set weighted_integer) cols
        then Inl ZeroDivision
      else Inr (m\<lparr>num := (\<lambda>key. if key = ''Nunits'' then num m ''Nunits'' + num p ''Nunits''
                                else if key \<in> set cols then integer_key m p key
                                else num m key)\<rparr>))"

definition merge_with :: "branch \<Rightarrow> string list \<Rightarrow> plant \<Rightarrow> plant \<Rightarrow> error + plant" where
  "merge_with b cols m p =
     (case b of
        Merge_Standard \<Rightarrow> merge_standard cols m p
      | Merge_LP \<Rightarrow> merge_LP cols m p
      | Merge_Integer \<Rightarrow> merge_integer cols m p
      | No_Merge \<Rightarrow> Inr m)"

subsection \<open>The greedy scan\<close>

text \<open>
  The inner loop \<^verbatim>\<open>for j in plants_merged.index\<close> for plant \<open>i\<close>: the clusters with
  plant \<open>i\<close> merged into the first one whose branch is taken, or \<open>None\<close> when the loop
  ends with \<^verbatim>\<open>merged = False\<close>.
\<close>

fun try_merge ::
  "string \<Rightarrow> bool \<Rightarrow> real \<Rightarrow> real \<Rightarrow> string list \<Rightarrow> nat \<Rightarrow> plant \<Rightarrow> nat list \<Rightarrow>
   cluster list \<Rightarrow> error + cluster list option" where
  "try_merge method OnlyOnes PartLoadMax Pmax cols i p fp [] = Inr None"
| "try_merge method OnlyOnes PartLoadMax Pmax cols i p fp (c # cs) =
     (let b = branch_of method OnlyOnes PartLoadMax Pmax p fp c in
      if b = No_Merge then
        (case try_merge method OnlyOnes PartLoadMax Pmax cols i p fp cs of
           Inl e \<Rightarrow> Inl e
         | Inr None \<Rightarrow> Inr None
         | Inr (Some cs') \<Rightarrow> Inr (Some (c # cs')))
      else
        (case merge_with b cols (merged c) p of
           Inl e \<Rightarrow> Inl e
         | Inr m' \<Rightarrow> Inr (Some (c\<lparr>merged := m', plant_orig := plant_orig c @ [i]\<rparr> # cs))))"

text \<open>
  The outer loop \<^verbatim>\<open>for i in plants.index\<close>, over the plants with their index and
  their fingerprint: a plant that merged nowhere starts a new cluster.
\<close>

fun merge_loop ::
  "string \<Rightarrow> bool \<Rightarrow> real \<Rightarrow> real \<Rightarrow> string list \<Rightarrow> (nat \<times> plant \<times> nat list) list \<Rightarrow>
   cluster list \<Rightarrow> error + cluster list" where
  "merge_loop method OnlyOnes PartLoadMax Pmax cols [] cs = Inr cs"
| "merge_loop method OnlyOnes PartLoadMax Pmax cols ((i, p, fp) # rest) cs =
     (case try_merge method OnlyOnes PartLoadMax Pmax cols i p fp cs of
        Inl e \<Rightarrow> Inl e
      | Inr (Some cs') \<Rightarrow> merge_loop method OnlyOnes PartLoadMax Pmax cols rest cs'
      | Inr None \<Rightarrow>
          merge_loop method OnlyOnes PartLoadMax Pmax cols rest
            (cs @ [\<lparr>merged = p, plant_orig = [i], fingerprint_merged = fp\<rparr>]))"

subsection \<open>Names and the mapping\<close>

text \<open>\<^verbatim>\<open>str\<close> of a list of indices, as Python prints it: \<^verbatim>\<open>[0, 3, 12]\<close>.\<close>

definition digit_char :: "nat \<Rightarrow> char" where
  "digit_char d = ''0123456789'' ! d"

function str_nat :: "nat \<Rightarrow> string" where
  "str_nat n = (if n < 10 then [digit_char n] else str_nat (n div 10) @ [digit_char (n mod 10)])"
  by pat_completeness auto
termination
  by (relation "measure (\<lambda>n. n)") auto

fun join_with :: "string \<Rightarrow> string list \<Rightarrow> string" where
  "join_with sep [] = []"
| "join_with sep [x] = x"
| "join_with sep (x # y # ys) = x @ sep @ join_with sep (y # ys)"

definition str_list :: "nat list \<Rightarrow> string" where
  "str_list xs = ''['' @ join_with '', '' (map str_nat xs) @ '']''"

text \<open>\<^verbatim>\<open>NewName.rstrip()\<close>: the string without its trailing whitespace.\<close>

definition whitespace :: "char \<Rightarrow> bool" where
  "whitespace c = (c \<in> set [CHR '' '', CHR 0x09, CHR 0x0A, CHR 0x0B, CHR 0x0C, CHR 0x0D])"

definition rstrip :: "string \<Rightarrow> string" where
  "rstrip s = rev (dropWhile whitespace (rev s))"

text \<open>
  The new name of a cluster. The functions \<^verbatim>\<open>clean_strings\<close> and \<^verbatim>\<open>shrink_to_64\<close>
  come from \<^verbatim>\<open>DispaSET/misc/str_handler.py\<close>; their composition is the parameter
  \<open>san\<close> of the model. The categorical cells have been filled before the loop, so
  \<open>fillna\<close> reads them as they are.
\<close>

definition new_name :: "(string \<Rightarrow> string) \<Rightarrow> cluster \<Rightarrow> string" where
  "new_name san c =
     (if length (plant_orig c) = 1
        then rstrip (san (str_list (plant_orig c) @ '' - '' @ Unit (merged c)))
      else rstrip (san (str_list (plant_orig c) @
             concat (map (\<lambda>key. '' - '' @ fillna (cat (merged c) key)) string_keys))))"

text \<open>
  The loop \<^verbatim>\<open>for j in range(Nunits_merged)\<close>: every row takes its new name, and the
  two dictionaries of the mapping are filled, a later name overwriting an equal one.
\<close>

definition map_cluster :: "string \<Rightarrow> nat list \<Rightarrow> mapping \<Rightarrow> mapping" where
  "map_cluster NewName orig mp =
     (if length orig = 1 then
        \<lparr>NewIndex = (NewIndex mp)(hd orig \<mapsto> NewName),
         FormerIndexes = (FormerIndexes mp)(NewName \<mapsto> [hd orig])\<rparr>
      else
        \<lparr>NewIndex = foldl (\<lambda>ni oldplant. ni(oldplant \<mapsto> NewName)) (NewIndex mp) orig,
         FormerIndexes = (FormerIndexes mp)(NewName \<mapsto> orig)\<rparr>)"

fun resolve_names ::
  "(string \<Rightarrow> string) \<Rightarrow> cluster list \<Rightarrow> mapping \<Rightarrow> plant list \<times> mapping" where
  "resolve_names san [] mp = ([], mp)"
| "resolve_names san (c # cs) mp =
     (let NewName = new_name san c;
          (ps, mp') = resolve_names san cs (map_cluster NewName (plant_orig c) mp)
      in ((merged c)\<lparr>Unit := NewName\<rparr> # ps, mp'))"

definition empty_mapping :: mapping where
  "empty_mapping = \<lparr>NewIndex = Map.empty, FormerIndexes = Map.empty\<rparr>"

subsection \<open>Finalisation by method\<close>

text \<open>
  LP clustered: a row whose \<^verbatim>\<open>RampingCost\<close> is zero gets
  \<^verbatim>\<open>Start_up / Power\<close>; the column is read for every row. There is no test of
  \<^verbatim>\<open>Power\<close> and nothing is raised: the row is written and the loop goes on. Where
  \<^verbatim>\<open>Power\<close> is zero the float64 cell is inf or nan and the quotient of the model is
  not that cell; no statement below reads it.
\<close>

definition ramping_row :: "plant \<Rightarrow> plant" where
  "ramping_row p =
     (if num p ''RampingCost'' = 0 then
        (let Power = num p ''PowerCapacity''; Start_up = num p ''StartUpCost'' in
         p\<lparr>num := (num p)(''RampingCost'' := Start_up / Power)\<rparr>)
      else p)"

definition LP_postprocess :: "string list \<Rightarrow> plant list \<Rightarrow> error + plant list" where
  "LP_postprocess cols ps =
     (if ps \<noteq> [] \<and> ''RampingCost'' \<notin> set cols then Inl (KeyError ''RampingCost'')
      else Inr (map ramping_row ps))"

text \<open>\<^verbatim>\<open>np.round\<close>: to the nearest integer, a half to the even neighbour.\<close>

definition np_round :: "real \<Rightarrow> real" where
  "np_round x =
     (let f = \<lfloor>x\<rfloor>; d = x - of_int f in
      if d < 1 / 2 then of_int f
      else if 1 / 2 < d then of_int (f + 1)
      else if even f then of_int f
      else of_int (f + 1))"

definition rescaled_keys :: "string list" where
  "rescaled_keys = [''PowerCapacity'', ''STOCapacity'', ''STOMaxChargingPower'',
     ''InitialPower'', ''NoLoadCost'']"

text \<open>
  Integer clustering: the loop over \<^verbatim>\<open>plants_merged.index\<close> only computes \<open>N\<close>; the
  rescaling and the assignment of \<^verbatim>\<open>Nunits\<close> stand after it and use the last
  \<^verbatim>\<open>idx\<close>. On an empty table \<^verbatim>\<open>idx\<close> is not defined.
\<close>

definition rescale_plant :: "string list \<Rightarrow> plant \<Rightarrow> plant" where
  "rescale_plant cols p =
     (let N = np_round (num p ''Nunits'') in
      p\<lparr>num := (\<lambda>key. if key = ''Nunits'' then N
                      else if key \<in> set rescaled_keys \<and> key \<in> set cols
                           then num p key * N / num p ''Nunits''
                      else num p key)\<rparr>)"

definition integer_postprocess :: "string list \<Rightarrow> plant list \<Rightarrow> error + plant list" where
  "integer_postprocess cols ps =
     (if ps = [] then Inl (NameError ''idx'')
      else if num (last ps) ''Nunits'' = 0 \<and> list_ex (\<lambda>key. key \<in> set cols) rescaled_keys
        then Inl ZeroDivision
      else Inr (butlast ps @ [rescale_plant cols (last ps)]))"

definition postprocess :: "string \<Rightarrow> string list \<Rightarrow> plant list \<Rightarrow> error + plant list" where
  "postprocess method cols ps =
     (if method = ''LP clustered'' then LP_postprocess cols ps
      else if method = ''Integer clustering'' then integer_postprocess cols ps
      else Inr ps)"

subsection \<open>The function\<close>

definition final_log :: "nat \<Rightarrow> nat \<Rightarrow> log_entry" where
  "final_log Nunits Nmerged =
     (if Nunits \<noteq> Nmerged then Info_Clustered Nunits Nmerged else Warn_NoCluster)"

text \<open>
  The body of the function from \<^verbatim>\<open>Nunits = len(plants)\<close> on: it reads the table, the
  flag and the warnings that the check of the method leaves.
\<close>

definition merge_units ::
  "(string \<Rightarrow> string) \<Rightarrow> string \<Rightarrow> nat \<Rightarrow> real \<Rightarrow> real \<Rightarrow> frame \<Rightarrow> bool \<Rightarrow> log_entry list \<Rightarrow>
   error + (frame \<times> mapping \<times> log_entry list)" where
  "merge_units san method Nslices PartLoadMax Pmax plants1 OnlyOnes warnings =
     (case sequence (map (fingerprint Nslices) (rows plants1)) of
        Inl e \<Rightarrow> Inl e
      | Inr fingerprints \<Rightarrow>
     (case fillna_frame plants1 of
        Inl e \<Rightarrow> Inl e
      | Inr plants \<Rightarrow>
     (case merge_loop method OnlyOnes PartLoadMax Pmax (columns plants)
             (zip [0..<length (rows plants)] (zip (rows plants) fingerprints)) [] of
        Inl e \<Rightarrow> Inl e
      | Inr cs \<Rightarrow>
     (case resolve_names san cs empty_mapping of
        (named, mp) \<Rightarrow>
     (case postprocess method (columns plants) named of
        Inl e \<Rightarrow> Inl e
      | Inr final \<Rightarrow>
          Inr (\<lparr>columns = columns plants, rows = final\<rparr>, mp,
               warnings @ [final_log (length (rows plants)) (length final)]))))))"

text \<open>
  \<^verbatim>\<open>clustering(plants, method, Nslices, PartLoadMax, Pmax)\<close>: the merged table, the
  mapping and the log, or the error that ends the call.
\<close>

definition clustering ::
  "(string \<Rightarrow> string) \<Rightarrow> frame \<Rightarrow> string \<Rightarrow> nat \<Rightarrow> real \<Rightarrow> real \<Rightarrow>
   error + (frame \<times> mapping \<times> log_entry list)" where
  "clustering san plants0 method Nslices PartLoadMax Pmax =
     (case check_required plants0 of
        Some e \<Rightarrow> Inl e
      | None \<Rightarrow>
     (case check_method method (default_Nunits plants0) of
        Inl e \<Rightarrow> Inl e
      | Inr (plants1, OnlyOnes, warnings) \<Rightarrow>
          merge_units san method Nslices PartLoadMax Pmax plants1 OnlyOnes warnings))"

subsection \<open>Notions of the statements\<close>

text \<open>The cluster that a plant starts when it merges nowhere.\<close>

definition new_cluster :: "nat \<times> plant \<times> nat list \<Rightarrow> cluster" where
  "new_cluster x = \<lparr>merged = fst (snd x), plant_orig = [fst x], fingerprint_merged = snd (snd x)\<rparr>"

text \<open>
  Row \<open>k\<close> of the output when it is a cluster of its own: the categories filled, the
  name built from the index and the old name.
\<close>

definition unmerged_row :: "(string \<Rightarrow> string) \<Rightarrow> nat \<Rightarrow> plant \<Rightarrow> plant" where
  "unmerged_row san k p =
     (fillna_plant p)\<lparr>Unit := rstrip (san (str_list [k] @ '' - '' @ Unit p))\<rparr>"

definition unmerged_rows :: "(string \<Rightarrow> string) \<Rightarrow> plant list \<Rightarrow> plant list" where
  "unmerged_rows san ps = map (\<lambda>(k, p). unmerged_row san k p) (zip [0..<length ps] ps)"

text \<open>The sum of \<^verbatim>\<open>PowerCapacity\<close> over a table, and that of \<^verbatim>\<open>Nunits\<close> times \<^verbatim>\<open>PowerCapacity\<close>.\<close>

definition total_capacity :: "plant list \<Rightarrow> real" where
  "total_capacity ps = sum_list (map (\<lambda>p. num p ''PowerCapacity'') ps)"

definition expanded_capacity :: "plant list \<Rightarrow> real" where
  "expanded_capacity ps = sum_list (map (\<lambda>p. num p ''Nunits'' * num p ''PowerCapacity'') ps)"

subsection \<open>Example tables\<close>

text \<open>
  Modelled from the spec: \<^verbatim>\<open>shrink_to_64\<close> of \<^verbatim>\<open>DispaSET/misc/str_handler.py\<close> is
  not among the sources; the spec has it truncate a name to at most 64 characters. It is
  the sanitizer of the examples, whose names have no character to strip.
\<close>

definition shrink_to_64 :: "string \<Rightarrow> string" where
  "shrink_to_64 s = take 64 s"

definition example_columns :: "string list" where
  "example_columns = required_inputs @ string_keys @ [''Nunits'', ''RampingCost'']"

text \<open>A plant of a zone, with its \<^verbatim>\<open>Nunits\<close>, \<^verbatim>\<open>PowerCapacity\<close>, \<^verbatim>\<open>PartLoadMin\<close>
  and \<^verbatim>\<open>NoLoadCost\<close>; the other numbers are zero, the other categories are missing.\<close>

definition example_plant :: "string \<Rightarrow> string \<Rightarrow> real \<Rightarrow> real \<Rightarrow> real \<Rightarrow> real \<Rightarrow> plant" where
  "example_plant name zone n P pmin noload =
     \<lparr>Unit = name,
      cat = (\<lambda>key. if key = ''Zone'' then Some zone else None),
      num = (\<lambda>key. if key = ''Nunits'' then n
                    else if key = ''PowerCapacity'' then P
                    else if key = ''PartLoadMin'' then pmin
                    else if key = ''NoLoadCost'' then noload
                    else 0)\<rparr>"

definition example_cluster :: "plant \<Rightarrow> nat \<Rightarrow> cluster" where
  "example_cluster p i = \<lparr>merged = p, plant_orig = [i], fingerprint_merged = replicate 9 0\<rparr>"

definition no_Unit_frame :: frame where
  "no_Unit_frame =
     \<lparr>columns = tl required_inputs @ string_keys, rows = [example_plant ''A'' ''Z'' 1 10 0 5]\<rparr>"

definition expansion_frame :: frame where
  "expansion_frame = \<lparr>columns = example_columns, rows = [example_plant ''A'' ''Z'' 3 10 0 5]\<rparr>"

definition fractional_rows :: "plant list" where
  "fractional_rows =
     [example_plant ''A'' ''Z'' (3 / 2) 10 0 5, example_plant ''B'' ''Z'' (5 / 2) 20 0 7]"



definition blend_frame :: frame where
  "blend_frame = \<lparr>columns = example_columns,
     rows = [example_plant ''A'' ''Z'' 1 10 (1 / 5) 5, example_plant ''B'' ''Z'' 1 20 (1 / 2) 7]\<rparr>"

definition no_chp_frame :: frame where
  "no_chp_frame =
     \<lparr>columns = required_inputs @ [''Zone'', ''Technology'', ''Fuel'', ''Nunits''],
      rows = [example_plant ''A'' ''Z'' 1 10 0 5]\<rparr>"

definition merge_frame :: frame where
  "merge_frame = \<lparr>columns = example_columns,
     rows = [example_plant ''A'' ''Z'' 1 10 0 5, example_plant ''B'' ''Z'' 1 20 0 7,
             example_plant ''C'' ''Y'' 1 100 1 0]\<rparr>"

definition heavy_frame :: frame where
  "heavy_frame = \<lparr>columns = example_columns,
     rows = [example_plant ''A'' ''Z'' 1 100 (1 / 2) 5, example_plant ''B'' ''Z'' 1 100 (1 / 2) 7]\<rparr>"

definition units_frame :: frame where
  "units_frame = \<lparr>columns = example_columns,
     rows = [example_plant ''A'' ''Z'' 2 10 0 5, example_plant ''B'' ''Z'' 1 20 0 7]\<rparr>"

section \<open>Properties\<close>

subsection \<open>Shared lemmas\<close>

lemmas example_defs = example_plant_def example_cluster_def example_columns_def
  required_inputs_def string_keys_def

lemmas test_defs = branch_of_def cluster_test_def eligible_def same_type_def low_pmin_def
  low_pmax_def highly_flexible_def fillna_def

lemma sequence_all_Inr:
  "\<forall>x \<in> set xs. f x = Inr (g x) \<Longrightarrow> sequence (map f xs) = Inr (map g xs)"
  by (induction xs) simp_all

subsection \<open>A missing Unit column\<close>

lemma check_required_Unit:
  "''Unit'' \<notin> set (columns plants) \<Longrightarrow> check_required plants = Some (MissingColumn ''Unit'')"
  by (simp add: check_required_def required_inputs_def)

text \<open>
  Claim C9. A table that has the ten required columns of the spec but no \<^verbatim>\<open>Unit\<close>
  column ends the function with the fatal error of a missing column, for every method:
  \<^verbatim>\<open>Unit\<close> is the first of the eleven required inputs of the code.
\<close>

theorem C9_missing_Unit_is_fatal:
  assumes "set [''PowerCapacity'', ''PartLoadMin'', ''RampUpRate'', ''RampDownRate'',
     ''StartUpTime'', ''MinUpTime'', ''MinDownTime'', ''NoLoadCost'', ''StartUpCost'',
     ''Efficiency''] \<subseteq> set (columns plants)"
    and "''Unit'' \<notin> set (columns plants)"
  shows "clustering san plants method Nslices PartLoadMax Pmax = Inl (MissingColumn ''Unit'')
         \<and> fatal (MissingColumn ''Unit'')"
  using assms(2) by (simp add: clustering_def check_required_Unit fatal_def)

theorem C9_witness:
  "clustering shrink_to_64 no_Unit_frame ''Standard'' 20 (1 / 10) 30 = Inl (MissingColumn ''Unit'')
   \<and> fatal (MissingColumn ''Unit'')"
  using C9_missing_Unit_is_fatal [of no_Unit_frame shrink_to_64 "''Standard''" 20 "1 / 10" 30]
  by (simp add: no_Unit_frame_def required_inputs_def string_keys_def)

subsection \<open>The pre-expansion of LP clustered\<close>

text \<open>
  Claim C7. Under \<^verbatim>\<open>LP clustered\<close> with some \<^verbatim>\<open>Nunits\<close> different from one, the
  check of the method leaves a table in which \<^verbatim>\<open>Nunits\<close> is one on every row and each
  of the four capacity columns the frame has is multiplied by the row's former
  \<^verbatim>\<open>Nunits\<close>; the flag \<^verbatim>\<open>OnlyOnes\<close> is set and the warning is logged. The rest of
  the function, fingerprints and merge tests included, runs on that table.
\<close>

theorem C7_LP_clustered_pre_expansion:
  assumes "\<not> only_ones plants"
  shows "\<exists>plants'. check_method ''LP clustered'' plants = Inr (plants', True, [Warn_LP_Aggregates])
           \<and> columns plants' = columns plants
           \<and> length (rows plants') = length (rows plants)
           \<and> (\<forall>k < length (rows plants).
                 num (rows plants' ! k) ''Nunits'' = 1
               \<and> (\<forall>key \<in> set [''PowerCapacity'', ''STOCapacity'', ''STOMaxChargingPower'', ''InitialPower''].
                     key \<in> set (columns plants) \<longrightarrow>
                     num (rows plants' ! k) key = num (rows plants ! k) ''Nunits'' * num (rows plants ! k) key))
           \<and> (check_required plants = None \<and> ''Nunits'' \<in> set (columns plants) \<longrightarrow>
                clustering san plants ''LP clustered'' Nslices PartLoadMax Pmax
                  = merge_units san ''LP clustered'' Nslices PartLoadMax Pmax plants' True
                      [Warn_LP_Aggregates])"
proof -
  have cm: "check_method ''LP clustered'' plants = Inr (expand_Nunits plants, True, [Warn_LP_Aggregates])"
    using assms by (simp add: check_method_def)
  have cells: "columns (expand_Nunits plants) = columns plants
           \<and> length (rows (expand_Nunits plants)) = length (rows plants)
           \<and> (\<forall>k < length (rows plants).
                 num (rows (expand_Nunits plants) ! k) ''Nunits'' = 1
               \<and> (\<forall>key \<in> set [''PowerCapacity'', ''STOCapacity'', ''STOMaxChargingPower'', ''InitialPower''].
                     key \<in> set (columns plants) \<longrightarrow>
                     num (rows (expand_Nunits plants) ! k) key
                       = num (rows plants ! k) ''Nunits'' * num (rows plants ! k) key))"
    by (simp add: expand_Nunits_def expand_plant_def capacity_keys_def)
  have run: "check_required plants = None \<and> ''Nunits'' \<in> set (columns plants) \<longrightarrow>
                clustering san plants ''LP clustered'' Nslices PartLoadMax Pmax
                  = merge_units san ''LP clustered'' Nslices PartLoadMax Pmax (expand_Nunits plants) True
                      [Warn_LP_Aggregates]"
    using cm by (simp add: clustering_def default_Nunits_def)
  from cm cells run show ?thesis by blast
qed

text \<open>The example of the spec: three units of capacity 10 enter as one row of capacity 30.\<close>

theorem C7_witness:
  "\<not> only_ones expansion_frame \<and>
   (\<exists>plants'. check_method ''LP clustered'' expansion_frame = Inr (plants', True, [Warn_LP_Aggregates])
      \<and> num (rows plants' ! 0) ''Nunits'' = 1 \<and> num (rows plants' ! 0) ''PowerCapacity'' = 30
      \<and> clustering shrink_to_64 expansion_frame ''LP clustered'' 20 (1 / 10) 30
           = merge_units shrink_to_64 ''LP clustered'' 20 (1 / 10) 30 plants' True [Warn_LP_Aggregates])"
proof -
  have h: "\<not> only_ones expansion_frame"
    by (simp add: only_ones_def expansion_frame_def example_plant_def)
  from C7_LP_clustered_pre_expansion [OF h, of shrink_to_64 20 "1 / 10" 30] obtain plants' where
    p: "check_method ''LP clustered'' expansion_frame = Inr (plants', True, [Warn_LP_Aggregates])"
    and c: "\<forall>k < length (rows expansion_frame).
                 num (rows plants' ! k) ''Nunits'' = 1
               \<and> (\<forall>key \<in> set [''PowerCapacity'', ''STOCapacity'', ''STOMaxChargingPower'', ''InitialPower''].
                     key \<in> set (columns expansion_frame) \<longrightarrow>
                     num (rows plants' ! k) key
                       = num (rows expansion_frame ! k) ''Nunits'' * num (rows expansion_frame ! k) key)"
    and m: "check_required expansion_frame = None \<and> ''Nunits'' \<in> set (columns expansion_frame) \<longrightarrow>
                clustering shrink_to_64 expansion_frame ''LP clustered'' 20 (1 / 10) 30
                  = merge_units shrink_to_64 ''LP clustered'' 20 (1 / 10) 30 plants' True
                      [Warn_LP_Aggregates]"
    by (elim exE conjE)
  have l: "0 < length (rows expansion_frame)"
    by (simp add: expansion_frame_def)
  note c0 = c [THEN spec, of 0, THEN mp, OF l]
  have n: "num (rows plants' ! 0) ''Nunits'' = 1" using c0 by blast
  have "''PowerCapacity'' \<in> set (columns expansion_frame)"
    by (simp add: expansion_frame_def example_columns_def required_inputs_def)
  then have "num (rows plants' ! 0) ''PowerCapacity''
        = num (rows expansion_frame ! 0) ''Nunits'' * num (rows expansion_frame ! 0) ''PowerCapacity''"
    using c0 by simp
  then have e: "num (rows plants' ! 0) ''PowerCapacity'' = 30"
    by (simp add: expansion_frame_def example_plant_def)
  have "check_required expansion_frame = None \<and> ''Nunits'' \<in> set (columns expansion_frame)"
    by (simp add: expansion_frame_def check_required_def example_defs)
  with m have "clustering shrink_to_64 expansion_frame ''LP clustered'' 20 (1 / 10) 30
                  = merge_units shrink_to_64 ''LP clustered'' 20 (1 / 10) 30 plants' True
                      [Warn_LP_Aggregates]"
    by blast
  with h p n e show ?thesis by blast
qed

subsection \<open>The reduction of PartLoadMin and StartUpTime\<close>

lemma standard_key_min:
  assumes "key = ''PartLoadMin'' \<or> key = ''StartUpTime''"
  shows "standard_key m p key =
           min (num m key * num m ''PowerCapacity'') (num p key * num p ''PowerCapacity'')
           / (num p ''PowerCapacity'' + num m ''PowerCapacity'')"
proof -
  have "key \<notin> set weighted_standard" "key \<notin> set capacity_keys" "key \<in> set min_keys"
    using assms by (auto simp: weighted_standard_def capacity_keys_def min_keys_def)
  then show ?thesis
    unfolding standard_key_def Let_def by (simp only: if_True if_False)
qed

lemma LP_key_min:
  assumes "key = ''PartLoadMin'' \<or> key = ''StartUpTime''"
  shows "LP_key m p key = 0"
proof -
  have "key \<notin> set weighted_LP" "key \<notin> set capacity_keys" "key \<in> set min_keys"
    using assms by (auto simp: weighted_LP_def capacity_keys_def min_keys_def)
  then show ?thesis
    unfolding LP_key_def Let_def by (simp only: if_True if_False)
qed

lemma merge_standard_num:
  "merge_standard cols m p = Inr m' \<Longrightarrow> key \<in> set cols \<Longrightarrow> num m' key = standard_key m p key"
  by (auto simp: merge_standard_def split: if_splits)

lemma merge_LP_num:
  "merge_LP cols m p = Inr m' \<Longrightarrow> key \<in> set cols \<Longrightarrow> num m' key = LP_key m p key"
  by (auto simp: merge_LP_def split: if_splits)

lemma branch_of_method:
  "branch_of method OnlyOnes PartLoadMax Pmax p fp c = b \<Longrightarrow> b \<noteq> No_Merge \<Longrightarrow>
     (method \<in> set [''Standard'', ''MILP''] \<longrightarrow> b = Merge_Standard)
   \<and> (method = ''LP clustered'' \<longrightarrow> b = Merge_LP)
   \<and> (method = ''Integer clustering'' \<longrightarrow> b = Merge_Integer)"
  by (auto simp: branch_of_def split: if_splits)

subsection \<open>The rounding of Integer clustering\<close>

lemma rescale_plant_cells:
  "num (rescale_plant cols p) ''Nunits'' = np_round (num p ''Nunits'')"
  "key \<in> set rescaled_keys \<Longrightarrow> key \<in> set cols \<Longrightarrow>
     num (rescale_plant cols p) key = num p key * np_round (num p ''Nunits'') / num p ''Nunits''"
  by (auto simp: rescale_plant_def Let_def rescaled_keys_def)

text \<open>
  Claim C4. The finalisation of \<^verbatim>\<open>Integer clustering\<close> changes the last row only: its
  \<^verbatim>\<open>Nunits\<close> is rounded and its \<^verbatim>\<open>PowerCapacity\<close>, \<^verbatim>\<open>STOCapacity\<close>,
  \<^verbatim>\<open>STOMaxChargingPower\<close>, \<^verbatim>\<open>InitialPower\<close> and \<^verbatim>\<open>NoLoadCost\<close> are multiplied by
  the rounded \<^verbatim>\<open>Nunits\<close> over the unrounded one; every other row is returned as it was.
\<close>

theorem C4_only_last_row_rescaled:
  assumes "postprocess ''Integer clustering'' cols ps = Inr ps'"
  shows "length ps' = length ps
       \<and> (\<forall>k. Suc k < length ps \<longrightarrow> ps' ! k = ps ! k)
       \<and> num (last ps') ''Nunits'' = np_round (num (last ps) ''Nunits'')
       \<and> (\<forall>key \<in> set [''PowerCapacity'', ''STOCapacity'', ''STOMaxChargingPower'',
                         ''InitialPower'', ''NoLoadCost''].
            key \<in> set cols \<longrightarrow>
            num (last ps') key
              = num (last ps) key * np_round (num (last ps) ''Nunits'') / num (last ps) ''Nunits'')"
proof -
  from assms have ne: "ps \<noteq> []" and eq: "ps' = butlast ps @ [rescale_plant cols (last ps)]"
    by (auto simp: postprocess_def integer_postprocess_def split: if_splits)
  have l: "length ps' = length ps" using ne by (simp add: eq)
  have f: "\<forall>k. Suc k < length ps \<longrightarrow> ps' ! k = ps ! k"
    by (auto simp: eq nth_append nth_butlast)
  have la: "last ps' = rescale_plant cols (last ps)" by (simp add: eq)
  show ?thesis
    using l f la rescale_plant_cells [where cols = cols and p = "last ps"]
    by (simp add: rescaled_keys_def)
qed

lemma np_round_5_2: "np_round (5 / 2) = 2"
  by (simp add: np_round_def Let_def)

theorem C4_witness:
  "\<exists>ps'. postprocess ''Integer clustering'' example_columns fractional_rows = Inr ps'
       \<and> length ps' = 2
       \<and> num (ps' ! 0) ''Nunits'' = 3 / 2
       \<and> num (ps' ! 0) ''PowerCapacity'' = 10
       \<and> num (last ps') ''Nunits'' = 2
       \<and> num (last ps') ''PowerCapacity'' = 16"
proof -
  have la: "last fractional_rows = example_plant ''B'' ''Z'' (5 / 2) 20 0 7"
    by (simp add: fractional_rows_def)
  have nz: "num (last fractional_rows) ''Nunits'' \<noteq> 0"
    by (simp add: la example_plant_def)
  obtain ps' where ps: "postprocess ''Integer clustering'' example_columns fractional_rows = Inr ps'"
    using nz by (simp add: postprocess_def integer_postprocess_def fractional_rows_def)
  note c4 = C4_only_last_row_rescaled [OF ps]
  have l: "length ps' = 2" using c4 by (simp add: fractional_rows_def)
  have "ps' ! 0 = fractional_rows ! 0" using c4 by (simp add: fractional_rows_def)
  then have r0: "num (ps' ! 0) ''Nunits'' = 3 / 2" "num (ps' ! 0) ''PowerCapacity'' = 10"
    by (simp_all add: fractional_rows_def example_plant_def)
  have n: "num (last ps') ''Nunits'' = 2"
    using c4 by (simp add: la example_plant_def np_round_5_2)
  have "''PowerCapacity'' \<in> set example_columns" by (simp add: example_defs)
  then have "num (last ps') ''PowerCapacity''
      = num (last fractional_rows) ''PowerCapacity'' * np_round (num (last fractional_rows) ''Nunits'')
        / num (last fractional_rows) ''Nunits''"
    using c4 by simp
  then have "num (last ps') ''PowerCapacity'' = 16"
    by (simp add: la example_plant_def np_round_5_2)
  with ps l r0 n show ?thesis by blast
qed

subsection \<open>Fingerprints are defined\<close>

text \<open>
  With at least one slice every boundary array has an element, so that no
  \<^verbatim>\<open>argmin\<close> is taken of an empty array.
\<close>

lemma sequence_projr:
  "\<forall>x \<in> set xs. \<not> isl (f x) \<Longrightarrow> sequence (map f xs) = Inr (map (\<lambda>x. projr (f x)) xs)"
  by (rule sequence_all_Inr) (auto simp: isl_def)

lemma sequence_length:
  "sequence rs = Inr xs \<Longrightarrow> length xs = length rs"
  by (induction rs arbitrary: xs) (auto split: sum.splits)

lemma linspace_nonempty: "0 < N \<Longrightarrow> linspace a b N \<noteq> []"
  by (simp add: linspace_def)

lemma mylogspace_nonempty: "0 < N \<Longrightarrow> mylogspace low high N \<noteq> []"
  by (simp add: mylogspace_def logspace_def linspace_nonempty)

lemma find_nearest_nonempty: "array \<noteq> [] \<Longrightarrow> \<not> isl (find_nearest array v)"
  by (cases array) (simp_all add: find_nearest_def argmin_def)

lemma fingerprint_defined:
  assumes "0 < Nslices"
  shows "\<not> isl (fingerprint Nslices p)"
proof -
  have "\<forall>x \<in> set (bounds Nslices). \<not> isl ((\<lambda>(key, array). find_nearest array (num p key)) x)"
    using assms
    by (simp add: bounds_def find_nearest_nonempty linspace_nonempty mylogspace_nonempty)
  from sequence_projr [OF this] show ?thesis
    by (simp add: fingerprint_def)
qed

lemma fingerprints_defined:
  assumes "0 < Nslices \<or> ps = []"
  shows "sequence (map (fingerprint Nslices) ps) = Inr (map (\<lambda>p. projr (fingerprint Nslices p)) ps)"
proof (cases "ps = []")
  case True
  then show ?thesis by simp
next
  case False
  with assms have "0 < Nslices" by simp
  then have "\<forall>p \<in> set ps. \<not> isl (fingerprint Nslices p)"
    by (simp add: fingerprint_defined)
  then show ?thesis by (rule sequence_projr)
qed

subsection \<open>Runs without a merge\<close>

text \<open>
  When no branch of the chain is ever taken, every plant starts a cluster of its own.
\<close>

lemma try_merge_No_Merge:
  assumes "\<forall>c \<in> set cs. branch_of method OnlyOnes PartLoadMax Pmax p fp c = No_Merge"
  shows "try_merge method OnlyOnes PartLoadMax Pmax cols i p fp cs = Inr None"
  using assms by (induction cs) simp_all

lemma merge_loop_No_Merge:
  assumes "\<forall>p fp c. branch_of method OnlyOnes PartLoadMax Pmax p fp c = No_Merge"
  shows "merge_loop method OnlyOnes PartLoadMax Pmax cols todo cs = Inr (cs @ map new_cluster todo)"
proof (induction todo arbitrary: cs)
  case Nil
  then show ?case by simp
next
  case (Cons x todo)
  obtain i p fp where x: "x = (i, p, fp)" by (cases x) auto
  have "try_merge method OnlyOnes PartLoadMax Pmax cols i p fp cs = Inr None"
    using assms by (simp add: try_merge_No_Merge)
  then show ?case
    by (simp add: x Cons.IH new_cluster_def)
qed

lemma branch_of_no_clustering:
  "method = ''No clustering'' \<or> method = ''LP'' \<Longrightarrow>
   branch_of method OnlyOnes PartLoadMax Pmax p fp c = No_Merge"
  by (auto simp: branch_of_def)

lemma branch_of_not_only_ones:
  "method \<in> set [''Standard'', ''MILP''] \<Longrightarrow>
   branch_of method False PartLoadMax Pmax p fp c = No_Merge"
  by (auto simp: branch_of_def cluster_test_def)

subsection \<open>The mapping of the clusters\<close>

text \<open>
  The dictionaries after the loop over the clusters, read name by name and index by
  index.
\<close>

lemma resolve_names_Cons:
  "resolve_names san (c # cs) mp =
     ((merged c)\<lparr>Unit := new_name san c\<rparr>
        # fst (resolve_names san cs (map_cluster (new_name san c) (plant_orig c) mp)),
      snd (resolve_names san cs (map_cluster (new_name san c) (plant_orig c) mp)))"
  by (simp add: Let_def split_beta)

lemma resolve_names_rows:
  "fst (resolve_names san cs mp) = map (\<lambda>c. (merged c)\<lparr>Unit := new_name san c\<rparr>) cs"
  by (induction cs arbitrary: mp) (simp_all only: resolve_names_Cons resolve_names.simps fst_conv list.map)

lemma foldl_NewIndex:
  "foldl (\<lambda>ni oldplant. ni(oldplant \<mapsto> name)) m orig
     = (\<lambda>i. if i \<in> set orig then Some name else m i)"
  by (induction orig arbitrary: m) (auto simp: fun_eq_iff)

lemma map_cluster_eq:
  "map_cluster name orig mp =
     \<lparr>NewIndex = (\<lambda>i. if i \<in> set orig then Some name else NewIndex mp i),
      FormerIndexes = (FormerIndexes mp)(name \<mapsto> orig)\<rparr>"
proof (cases "length orig = 1")
  case True
  then obtain x where "orig = [x]" by (cases orig) auto
  then show ?thesis by (auto simp: map_cluster_def fun_eq_iff)
next
  case False
  then show ?thesis by (simp add: map_cluster_def foldl_NewIndex)
qed

lemma resolve_names_snd:
  "snd (resolve_names san (c # cs) mp)
     = snd (resolve_names san cs (map_cluster (new_name san c) (plant_orig c) mp))"
  by (simp only: resolve_names_Cons snd_conv)

lemma NewIndex_outside:
  "\<forall>c \<in> set cs. i \<notin> set (plant_orig c) \<Longrightarrow>
   NewIndex (snd (resolve_names san cs mp)) i = NewIndex mp i"
proof (induction cs arbitrary: mp)
  case Nil
  then show ?case by simp
next
  case (Cons c cs)
  then show ?case
    by (simp only: resolve_names_snd) (simp add: map_cluster_eq)
qed

lemma FormerIndexes_outside:
  "\<forall>c \<in> set cs. new_name san c \<noteq> n \<Longrightarrow>
   FormerIndexes (snd (resolve_names san cs mp)) n = FormerIndexes mp n"
proof (induction cs arbitrary: mp)
  case Nil
  then show ?case by simp
next
  case (Cons c cs)
  then show ?case
    by (simp only: resolve_names_snd) (auto simp: map_cluster_eq)
qed

lemma NewIndex_inside:
  assumes "distinct (concat (map plant_orig cs))" and "c \<in> set cs" and "i \<in> set (plant_orig c)"
  shows "NewIndex (snd (resolve_names san cs mp)) i = Some (new_name san c)"
  using assms
proof (induction cs arbitrary: mp)
  case Nil
  then show ?case by simp
next
  case (Cons c0 cs)
  show ?case
  proof (cases "c \<in> set cs")
    case True
    moreover from Cons.prems(1) have "distinct (concat (map plant_orig cs))" by simp
    ultimately show ?thesis
      using Cons.IH Cons.prems(3) by (simp only: resolve_names_snd)
  next
    case False
    with Cons.prems(2) have c: "c = c0" by simp
    from Cons.prems(1,3) have "\<forall>c' \<in> set cs. i \<notin> set (plant_orig c')"
      by (auto simp: c)
    from NewIndex_outside [OF this] show ?thesis
      using Cons.prems(3) by (simp only: resolve_names_snd) (simp add: map_cluster_eq c)
  qed
qed

lemma FormerIndexes_inside:
  assumes "distinct (map (new_name san) cs)" and "c \<in> set cs"
  shows "FormerIndexes (snd (resolve_names san cs mp)) (new_name san c) = Some (plant_orig c)"
  using assms
proof (induction cs arbitrary: mp)
  case Nil
  then show ?case by simp
next
  case (Cons c0 cs)
  show ?case
  proof (cases "c \<in> set cs")
    case True
    moreover from Cons.prems(1) have "distinct (map (new_name san) cs)" by simp
    ultimately show ?thesis
      using Cons.IH by (simp only: resolve_names_snd)
  next
    case False
    with Cons.prems(2) have c: "c = c0" by simp
    from Cons.prems(1) have "new_name san c0 \<notin> new_name san ` set cs"
      by simp
    then have "\<forall>c' \<in> set cs. new_name san c' \<noteq> new_name san c"
      unfolding c by (metis imageI)
    from FormerIndexes_outside [OF this] show ?thesis
      by (simp only: resolve_names_snd) (simp add: map_cluster_eq c)
  qed
qed

lemma disjoint_origins:
  assumes "distinct (concat (map plant_orig cs))" and "c1 \<in> set cs" and "c2 \<in> set cs"
    and "c1 \<noteq> c2"
  shows "set (plant_orig c1) \<inter> set (plant_orig c2) = {}"
  using assms
proof (induction cs)
  case Nil
  then show ?case by simp
next
  case (Cons c cs)
  then show ?case by (cases "c1 = c"; cases "c2 = c") auto
qed

subsection \<open>The indices of the clusters\<close>

text \<open>
  Each plant's index goes to one cluster: the lists of original indices hold, together,
  each index of the table once.
\<close>

lemma try_merge_orig:
  "try_merge method OnlyOnes PartLoadMax Pmax cols i p fp cs = Inr (Some cs') \<Longrightarrow>
   mset (concat (map plant_orig cs')) = mset (concat (map plant_orig cs)) + {#i#}"
proof (induction cs arbitrary: cs')
  case Nil
  then show ?case by simp
next
  case (Cons c cs)
  show ?case
  proof (cases "branch_of method OnlyOnes PartLoadMax Pmax p fp c = No_Merge")
    case True
    with Cons.prems obtain cs'' where
      t: "try_merge method OnlyOnes PartLoadMax Pmax cols i p fp cs = Inr (Some cs'')"
      and c: "cs' = c # cs''"
      by (auto simp: Let_def split: sum.splits option.splits)
    from Cons.IH [OF t] show ?thesis by (simp add: c)
  next
    case False
    with Cons.prems obtain m' where
      "cs' = c\<lparr>merged := m', plant_orig := plant_orig c @ [i]\<rparr> # cs"
      by (auto simp: Let_def split: sum.splits)
    then show ?thesis by simp
  qed
qed

lemma merge_loop_orig:
  "merge_loop method OnlyOnes PartLoadMax Pmax cols todo cs = Inr cs' \<Longrightarrow>
   mset (concat (map plant_orig cs')) = mset (concat (map plant_orig cs)) + mset (map fst todo)"
proof (induction todo arbitrary: cs)
  case Nil
  then show ?case by simp
next
  case (Cons x todo)
  obtain i p fp where x: "x = (i, p, fp)" by (cases x) auto
  show ?case
  proof (cases "try_merge method OnlyOnes PartLoadMax Pmax cols i p fp cs")
    case (Inl e)
    with Cons.prems show ?thesis by (simp add: x)
  next
    case (Inr r)
    show ?thesis
    proof (cases r)
      case None
      with Inr Cons.prems have
        "merge_loop method OnlyOnes PartLoadMax Pmax cols todo
           (cs @ [\<lparr>merged = p, plant_orig = [i], fingerprint_merged = fp\<rparr>]) = Inr cs'"
        by (simp add: x)
      from Cons.IH [OF this] show ?thesis by (simp add: x)
    next
      case (Some cs1)
      with Inr Cons.prems have "merge_loop method OnlyOnes PartLoadMax Pmax cols todo cs1 = Inr cs'"
        by (simp add: x)
      moreover from Inr Some have
        "try_merge method OnlyOnes PartLoadMax Pmax cols i p fp cs = Inr (Some cs1)"
        by simp
      ultimately show ?thesis
        using Cons.IH [of cs1] try_merge_orig [of _ _ _ _ _ i p fp cs cs1] by (simp add: x)
    qed
  qed
qed

lemma clustering_Inr:
  assumes "clustering san plants0 method Nslices PartLoadMax Pmax = Inr (out, mp, lg)"
  obtains plants1 OnlyOnes warnings fps plants cs final where
    "check_required plants0 = None"
    "check_method method (default_Nunits plants0) = Inr (plants1, OnlyOnes, warnings)"
    "sequence (map (fingerprint Nslices) (rows plants1)) = Inr fps"
    "fillna_frame plants1 = Inr plants"
    "merge_loop method OnlyOnes PartLoadMax Pmax (columns plants)
       (zip [0..<length (rows plants)] (zip (rows plants) fps)) [] = Inr cs"
    "mp = snd (resolve_names san cs empty_mapping)"
    "postprocess method (columns plants) (fst (resolve_names san cs empty_mapping)) = Inr final"
    "out = \<lparr>columns = columns plants, rows = final\<rparr>"
    "lg = warnings @ [final_log (length (rows plants)) (length final)]"
  using assms unfolding clustering_def merge_units_def
  by (auto split: option.splits sum.splits prod.splits)

lemma check_method_length:
  "check_method method plants = Inr (plants1, OnlyOnes, warnings) \<Longrightarrow>
   length (rows plants1) = length (rows plants)"
  by (auto simp: check_method_def Let_def expand_Nunits_def split: if_splits)

lemma default_Nunits_length: "length (rows (default_Nunits plants)) = length (rows plants)"
  by (simp add: default_Nunits_def set_column_def)

lemma fillna_frame_Inr:
  "fillna_frame plants1 = Inr plants \<Longrightarrow>
   plants = plants1\<lparr>rows := map fillna_plant (rows plants1)\<rparr> \<and> set string_keys \<subseteq> set (columns plants1)"
  by (auto simp: fillna_frame_def filter_empty_conv split: list.splits)

lemma ramping_row_Unit: "Unit (ramping_row p) = Unit p"
  by (simp add: ramping_row_def Let_def)

lemma postprocess_Unit:
  assumes "postprocess method cols ps = Inr ps'"
  shows "map Unit ps' = map Unit ps"
proof -
  consider (lp) "method = ''LP clustered''" | (int) "method = ''Integer clustering''"
    | (other) "method \<noteq> ''LP clustered''" "method \<noteq> ''Integer clustering''"
    by blast
  then show ?thesis
  proof cases
    case lp
    with assms have "ps' = map ramping_row ps"
      by (auto simp: postprocess_def LP_postprocess_def split: if_splits)
    then show ?thesis
      by (simp add: comp_def ramping_row_Unit)
  next
    case int
    with assms have ne: "ps \<noteq> []" and eq: "ps' = butlast ps @ [rescale_plant cols (last ps)]"
      by (auto simp: postprocess_def integer_postprocess_def split: if_splits)
    have "map Unit ps' = map Unit (butlast ps @ [last ps])"
      by (simp add: eq rescale_plant_def Let_def)
    with ne show ?thesis by simp
  next
    case other
    with assms show ?thesis by (simp add: postprocess_def)
  qed
qed

lemma clustering_clusters:
  assumes "clustering san plants0 method Nslices PartLoadMax Pmax = Inr (out, mp, lg)"
  obtains cs where
    "mp = snd (resolve_names san cs empty_mapping)"
    "map Unit (rows out) = map (new_name san) cs"
    "mset (concat (map plant_orig cs)) = mset [0..<length (rows plants0)]"
proof -
  from assms obtain plants1 OnlyOnes warnings fps plants cs final where
    cm: "check_method method (default_Nunits plants0) = Inr (plants1, OnlyOnes, warnings)"
    and fp: "sequence (map (fingerprint Nslices) (rows plants1)) = Inr fps"
    and fi: "fillna_frame plants1 = Inr plants"
    and ml: "merge_loop method OnlyOnes PartLoadMax Pmax (columns plants)
       (zip [0..<length (rows plants)] (zip (rows plants) fps)) [] = Inr cs"
    and mp: "mp = snd (resolve_names san cs empty_mapping)"
    and pp: "postprocess method (columns plants) (fst (resolve_names san cs empty_mapping)) = Inr final"
    and out: "out = \<lparr>columns = columns plants, rows = final\<rparr>"
    by (rule clustering_Inr)
  have l1: "length (rows plants1) = length (rows plants0)"
    using check_method_length [OF cm] by (simp add: default_Nunits_length)
  have l2: "length (rows plants) = length (rows plants1)"
    using fillna_frame_Inr [OF fi] by simp
  have l3: "length fps = length (rows plants1)"
    using sequence_length [OF fp] by simp
  have "map fst (zip [0..<length (rows plants)] (zip (rows plants) fps)) = [0..<length (rows plants0)]"
    using l1 l2 l3 by simp
  with merge_loop_orig [OF ml]
  have "mset (concat (map plant_orig cs)) = mset [0..<length (rows plants0)]" by simp
  moreover have "map Unit (rows out) = map (new_name san) cs"
    using postprocess_Unit [OF pp] by (simp add: out resolve_names_rows comp_def)
  ultimately show thesis using mp that by blast
qed

text \<open>
  Claim C3. When the names of the output rows are pairwise distinct, the lists of
  \<^verbatim>\<open>FormerIndexes\<close> have no index twice, are pairwise disjoint and cover exactly the
  original indices \<open>0..<n\<close>; \<^verbatim>\<open>NewIndex\<close> has an entry for exactly these indices,
  and \<^verbatim>\<open>NewIndex[i]\<close> is \<open>name\<close> exactly when \<open>i\<close> is in \<^verbatim>\<open>FormerIndexes[name]\<close>.
  The keys of \<^verbatim>\<open>FormerIndexes\<close> are the names of the output rows. This holds for every
  method and every sanitizer of the names.
\<close>

theorem C3_mapping_is_partition:
  assumes "clustering san plants0 method Nslices PartLoadMax Pmax = Inr (out, mp, lg)"
    and "distinct (map Unit (rows out))"
  shows "(\<forall>l \<in> ran (FormerIndexes mp). distinct l)
       \<and> (\<forall>n1 l1 n2 l2. FormerIndexes mp n1 = Some l1 \<and> FormerIndexes mp n2 = Some l2 \<and> n1 \<noteq> n2
             \<longrightarrow> set l1 \<inter> set l2 = {})
       \<and> (\<Union>l \<in> ran (FormerIndexes mp). set l) = {0..<length (rows plants0)}
       \<and> dom (NewIndex mp) = {0..<length (rows plants0)}
       \<and> (\<forall>i name. NewIndex mp i = Some name
             \<longleftrightarrow> (\<exists>l. FormerIndexes mp name = Some l \<and> i \<in> set l))
       \<and> dom (FormerIndexes mp) = set (map Unit (rows out))"
proof -
  from assms(1) obtain cs where
    mp: "mp = snd (resolve_names san cs empty_mapping)"
    and names: "map Unit (rows out) = map (new_name san) cs"
    and ms: "mset (concat (map plant_orig cs)) = mset [0..<length (rows plants0)]"
    by (rule clustering_clusters)
  let ?n = "length (rows plants0)"
  have dn: "distinct (map (new_name san) cs)" using assms(2) names by simp
  have dc: "distinct (concat (map plant_orig cs))"
    using ms by (metis distinct_upt mset_eq_imp_distinct_iff)
  have sc: "set (concat (map plant_orig cs)) = {0..<?n}"
    using ms by (metis mset_eq_setD set_upt)
  have FI_in: "\<And>c. c \<in> set cs \<Longrightarrow> FormerIndexes mp (new_name san c) = Some (plant_orig c)"
    unfolding mp by (rule FormerIndexes_inside [OF dn])
  have FI_out: "\<And>n. \<forall>c \<in> set cs. new_name san c \<noteq> n \<Longrightarrow> FormerIndexes mp n = None"
    unfolding mp by (simp add: FormerIndexes_outside empty_mapping_def)
  have NI_in: "\<And>c i. c \<in> set cs \<Longrightarrow> i \<in> set (plant_orig c) \<Longrightarrow> NewIndex mp i = Some (new_name san c)"
    unfolding mp by (rule NewIndex_inside [OF dc])
  have NI_out: "\<And>i. \<forall>c \<in> set cs. i \<notin> set (plant_orig c) \<Longrightarrow> NewIndex mp i = None"
    unfolding mp by (simp add: NewIndex_outside empty_mapping_def)
  have FI_char: "\<And>n l. FormerIndexes mp n = Some l
                   \<longleftrightarrow> (\<exists>c \<in> set cs. new_name san c = n \<and> plant_orig c = l)"
  proof
    fix n l
    assume a: "FormerIndexes mp n = Some l"
    then have "\<not> (\<forall>c \<in> set cs. new_name san c \<noteq> n)" using FI_out by force
    then obtain c where c: "c \<in> set cs" "new_name san c = n" by blast
    with FI_in [OF c(1)] a show "\<exists>c \<in> set cs. new_name san c = n \<and> plant_orig c = l" by auto
  next
    fix n l
    assume "\<exists>c \<in> set cs. new_name san c = n \<and> plant_orig c = l"
    then show "FormerIndexes mp n = Some l" using FI_in by blast
  qed
  have NI_char: "\<And>i n. NewIndex mp i = Some n
                   \<longleftrightarrow> (\<exists>c \<in> set cs. new_name san c = n \<and> i \<in> set (plant_orig c))"
  proof
    fix i n
    assume a: "NewIndex mp i = Some n"
    then have "\<not> (\<forall>c \<in> set cs. i \<notin> set (plant_orig c))" using NI_out by force
    then obtain c where c: "c \<in> set cs" "i \<in> set (plant_orig c)" by blast
    with NI_in [OF c] a show "\<exists>c \<in> set cs. new_name san c = n \<and> i \<in> set (plant_orig c)" by auto
  next
    fix i n
    assume "\<exists>c \<in> set cs. new_name san c = n \<and> i \<in> set (plant_orig c)"
    then show "NewIndex mp i = Some n" using NI_in by blast
  qed
  have ran_FI: "ran (FormerIndexes mp) = plant_orig ` set cs"
    by (auto simp: ran_def FI_char)
  have c1: "\<forall>l \<in> ran (FormerIndexes mp). distinct l"
    using dc by (auto simp: ran_FI distinct_concat_iff)
  have c2: "\<forall>n1 l1 n2 l2. FormerIndexes mp n1 = Some l1 \<and> FormerIndexes mp n2 = Some l2 \<and> n1 \<noteq> n2
             \<longrightarrow> set l1 \<inter> set l2 = {}"
  proof (intro allI impI)
    fix n1 l1 n2 l2
    assume a: "FormerIndexes mp n1 = Some l1 \<and> FormerIndexes mp n2 = Some l2 \<and> n1 \<noteq> n2"
    then obtain c1 c2 where
      "c1 \<in> set cs" "new_name san c1 = n1" "plant_orig c1 = l1"
      "c2 \<in> set cs" "new_name san c2 = n2" "plant_orig c2 = l2"
      using FI_char by blast
    moreover with a have "c1 \<noteq> c2" by auto
    ultimately show "set l1 \<inter> set l2 = {}"
      using disjoint_origins [OF dc] by blast
  qed
  have c3: "(\<Union>l \<in> ran (FormerIndexes mp). set l) = {0..<?n}"
    using sc by (simp add: ran_FI)
  have c4: "dom (NewIndex mp) = {0..<?n}"
  proof -
    have "dom (NewIndex mp) = set (concat (map plant_orig cs))"
      by (auto simp: dom_def NI_char)
    with sc show ?thesis by simp
  qed
  have c5: "\<forall>i name. NewIndex mp i = Some name
             \<longleftrightarrow> (\<exists>l. FormerIndexes mp name = Some l \<and> i \<in> set l)"
    by (auto simp: NI_char FI_char)
  have c6: "dom (FormerIndexes mp) = set (map Unit (rows out))"
    by (auto simp: dom_def FI_char names)
  from c1 c2 c3 c4 c5 c6 show ?thesis by blast
qed

lemmas run_defs = clustering_def merge_units_def check_required_def default_Nunits_def set_column_def
  check_method_def only_ones_def expand_Nunits_def expand_plant_def
  fingerprint_def bounds_def find_nearest_def argmin_def
  linspace_def mylogspace_def logspace_def fillna_frame_def fillna_plant_def
  merge_with_def merge_standard_def merge_LP_def merge_integer_def
  standard_key_def LP_key_def integer_key_def ramping_cost_def
  weighted_standard_def weighted_LP_def weighted_integer_def capacity_keys_def min_keys_def
  new_name_def map_cluster_def empty_mapping_def str_list_def digit_char_def
  rstrip_def whitespace_def shrink_to_64_def
  postprocess_def LP_postprocess_def ramping_row_def integer_postprocess_def rescale_plant_def
  rescaled_keys_def final_log_def

lemma merge_frame_Standard:
  "\<exists>out mp lg. clustering shrink_to_64 merge_frame ''Standard'' 1 (1 / 10) 30 = Inr (out, mp, lg)
     \<and> map Unit (rows out) = [''[0, 1] - Z -  -  -'', ''[2] - C'']"
  by (simp add: merge_frame_def run_defs test_defs example_defs Let_def)

theorem C3_witness:
  "\<exists>out mp lg. clustering shrink_to_64 merge_frame ''Standard'' 1 (1 / 10) 30 = Inr (out, mp, lg)
     \<and> distinct (map Unit (rows out))
     \<and> dom (NewIndex mp) = {0..<3}
     \<and> (\<Union>l \<in> ran (FormerIndexes mp). set l) = {0..<3}
     \<and> dom (FormerIndexes mp) = {''[0, 1] - Z -  -  -'', ''[2] - C''}"
proof -
  from merge_frame_Standard obtain out mp lg where
    r: "clustering shrink_to_64 merge_frame ''Standard'' 1 (1 / 10) 30 = Inr (out, mp, lg)"
    and u: "map Unit (rows out) = [''[0, 1] - Z -  -  -'', ''[2] - C'']"
    by (elim exE conjE)
  have d: "distinct (map Unit (rows out))" by (simp add: u)
  have l: "length (rows merge_frame) = 3" by (simp add: merge_frame_def)
  from C3_mapping_is_partition [OF r d] have
    "dom (NewIndex mp) = {0..<3}"
    "(\<Union>l \<in> ran (FormerIndexes mp). set l) = {0..<3}"
    "dom (FormerIndexes mp) = {''[0, 1] - Z -  -  -'', ''[2] - C''}"
    by (simp_all only: l u list.set)
  with r d show ?thesis by blast
qed

lemma check_method_LP_clustered_OnlyOnes:
  "check_method ''LP clustered'' plants = Inr (plants', OnlyOnes, warnings) \<Longrightarrow> OnlyOnes"
  by (auto simp: check_method_def Let_def split: if_splits)

subsection \<open>The merge test by method\<close>

text \<open>
  Claim C1, as the code has it. Under \<^verbatim>\<open>LP clustered\<close> the flag \<^verbatim>\<open>OnlyOnes\<close> holds
  after the check of the method, and a plant merges into a cluster exactly when the two
  have the same type: neither the fingerprints nor the thresholds are read. The test on
  the fingerprint, \<^verbatim>\<open>PartLoadMax\<close>, \<^verbatim>\<open>Pmax\<close> and the flexibility belongs to
  \<^verbatim>\<open>Standard\<close> and \<^verbatim>\<open>MILP\<close>.
\<close>

theorem C1_LP_clustered_merges_on_type_alone:
  assumes "check_method ''LP clustered'' plants = Inr (plants', OnlyOnes, warnings)"
  shows "OnlyOnes
       \<and> (branch_of ''LP clustered'' OnlyOnes PartLoadMax Pmax p fp c \<noteq> No_Merge
            \<longleftrightarrow> same_type p (merged c))
       \<and> (\<forall>method \<in> set [''Standard'', ''MILP''].
            branch_of method O' PartLoadMax Pmax p fp c \<noteq> No_Merge
            \<longleftrightarrow> O' \<and> same_type p (merged c)
                \<and> ((fp = fingerprint_merged c \<and> low_pmin PartLoadMax p)
                     \<or> highly_flexible p \<or> low_pmax Pmax p))"
proof -
  have o: OnlyOnes using assms by (rule check_method_LP_clustered_OnlyOnes)
  have "branch_of ''LP clustered'' True PartLoadMax Pmax p fp c \<noteq> No_Merge
            \<longleftrightarrow> same_type p (merged c)"
    by (simp add: branch_of_def)
  moreover have "\<forall>method \<in> set [''Standard'', ''MILP''].
            branch_of method O' PartLoadMax Pmax p fp c \<noteq> No_Merge
            \<longleftrightarrow> O' \<and> same_type p (merged c)
                \<and> ((fp = fingerprint_merged c \<and> low_pmin PartLoadMax p)
                     \<or> highly_flexible p \<or> low_pmax Pmax p)"
    by (auto simp: branch_of_def cluster_test_def eligible_def)
  ultimately show ?thesis using o by simp
qed

theorem C1_witness:
  "check_method ''LP clustered'' heavy_frame = Inr (heavy_frame, True, [])
   \<and> branch_of ''LP clustered'' True (1 / 10) 30 (rows heavy_frame ! 1) (replicate 9 0)
        (example_cluster (rows heavy_frame ! 0) 0) \<noteq> No_Merge
   \<and> same_type (rows heavy_frame ! 1) (merged (example_cluster (rows heavy_frame ! 0) 0))
   \<and> branch_of ''Standard'' True (1 / 10) 30 (rows heavy_frame ! 1) (replicate 9 0)
        (example_cluster (rows heavy_frame ! 0) 0) = No_Merge"
proof -
  have cm: "check_method ''LP clustered'' heavy_frame = Inr (heavy_frame, True, [])"
    by (simp add: check_method_def only_ones_def heavy_frame_def example_plant_def)
  have st: "same_type (rows heavy_frame ! 1) (merged (example_cluster (rows heavy_frame ! 0) 0))"
    by (simp add: heavy_frame_def same_type_def example_defs fillna_def)
  have ne: "\<not> ((replicate 9 0 = fingerprint_merged (example_cluster (rows heavy_frame ! 0) 0)
                \<and> low_pmin (1 / 10) (rows heavy_frame ! 1))
              \<or> highly_flexible (rows heavy_frame ! 1) \<or> low_pmax 30 (rows heavy_frame ! 1))"
    by (simp add: heavy_frame_def low_pmin_def low_pmax_def highly_flexible_def example_defs)
  note c1 = C1_LP_clustered_merges_on_type_alone [OF cm, of "1 / 10" 30 "rows heavy_frame ! 1"
      "replicate 9 0" "example_cluster (rows heavy_frame ! 0) 0" True]
  from c1 st have "branch_of ''LP clustered'' True (1 / 10) 30 (rows heavy_frame ! 1) (replicate 9 0)
        (example_cluster (rows heavy_frame ! 0) 0) \<noteq> No_Merge"
    by blast
  moreover from c1 have "branch_of ''Standard'' True (1 / 10) 30 (rows heavy_frame ! 1) (replicate 9 0)
        (example_cluster (rows heavy_frame ! 0) 0) \<noteq> No_Merge
      \<longleftrightarrow> True \<and> same_type (rows heavy_frame ! 1) (merged (example_cluster (rows heavy_frame ! 0) 0))
          \<and> ((replicate 9 0 = fingerprint_merged (example_cluster (rows heavy_frame ! 0) 0)
                \<and> low_pmin (1 / 10) (rows heavy_frame ! 1))
              \<or> highly_flexible (rows heavy_frame ! 1) \<or> low_pmax 30 (rows heavy_frame ! 1))"
    by (simp only: list.set ball_simps bex_simps insert_iff simp_thms)
  with ne have "branch_of ''Standard'' True (1 / 10) 30 (rows heavy_frame ! 1) (replicate 9 0)
        (example_cluster (rows heavy_frame ! 0) 0) = No_Merge"
    by blast
  ultimately show ?thesis using cm st by blast
qed

lemma heavy_frame_LP_clustered:
  "\<exists>out mp lg. clustering shrink_to_64 heavy_frame ''LP clustered'' 1 (1 / 10) 30 = Inr (out, mp, lg)
     \<and> length (rows out) = 1
     \<and> FormerIndexes mp ''[0, 1] - Z -  -  -'' = Some [0, 1]
     \<and> lg = [Info_Clustered 2 1]"
  by (simp add: heavy_frame_def run_defs test_defs example_defs Let_def)

text \<open>
  The claim as stated fails: two plants of one zone with equal fingerprints, a part
  load above \<^verbatim>\<open>PartLoadMax\<close>, a capacity above \<^verbatim>\<open>Pmax\<close> and no flexibility are
  not eligible, and \<^verbatim>\<open>LP clustered\<close> merges them into one row.
\<close>

theorem C1_counterexample:
  "\<not> isl (clustering shrink_to_64 heavy_frame ''LP clustered'' 1 (1 / 10) 30)
   \<and> length (rows (fst (projr (clustering shrink_to_64 heavy_frame ''LP clustered'' 1 (1 / 10) 30)))) = 1
   \<and> FormerIndexes (fst (snd (projr (clustering shrink_to_64 heavy_frame ''LP clustered'' 1 (1 / 10) 30))))
        ''[0, 1] - Z -  -  -'' = Some [0, 1]
   \<and> fingerprint 1 (rows heavy_frame ! 0) = Inr (replicate 9 0)
   \<and> fingerprint 1 (rows heavy_frame ! 1) = Inr (replicate 9 0)
   \<and> \<not> eligible (1 / 10) 30 (rows heavy_frame ! 1) (replicate 9 0)
          (example_cluster (rows heavy_frame ! 0) 0)"
proof -
  from heavy_frame_LP_clustered obtain out mp lg where
    r: "clustering shrink_to_64 heavy_frame ''LP clustered'' 1 (1 / 10) 30 = Inr (out, mp, lg)"
    and l: "length (rows out) = 1"
    and f: "FormerIndexes mp ''[0, 1] - Z -  -  -'' = Some [0, 1]"
    by blast
  have fp: "fingerprint 1 (rows heavy_frame ! 0) = Inr (replicate 9 0)"
     "fingerprint 1 (rows heavy_frame ! 1) = Inr (replicate 9 0)"
    by (simp_all add: heavy_frame_def fingerprint_def bounds_def find_nearest_def argmin_def
          linspace_def mylogspace_def logspace_def numeral_eq_Suc)
  have ne: "\<not> eligible (1 / 10) 30 (rows heavy_frame ! 1) (replicate 9 0)
          (example_cluster (rows heavy_frame ! 0) 0)"
    by (simp add: heavy_frame_def eligible_def low_pmin_def low_pmax_def highly_flexible_def example_defs)
  show ?thesis unfolding r using l f fp ne by simp
qed

subsection \<open>The output of a run without a merge\<close>

text \<open>
  A run in which no plant merges returns the rows of the table in their order, each
  with its missing categories filled with the empty string and with the new name built
  from its own index and its old name.
\<close>

lemma unmerged_rows_nth:
  "k < length ps \<Longrightarrow> unmerged_rows san ps ! k = unmerged_row san k (ps ! k)"
  by (simp add: unmerged_rows_def)

lemma unmerged_rows_length: "length (unmerged_rows san ps) = length ps"
  by (simp add: unmerged_rows_def)

lemma renamed_new_clusters:
  assumes "length fps = length ps"
  shows "map (\<lambda>c. (merged c)\<lparr>Unit := new_name san c\<rparr>)
           (map new_cluster (zip [0..<length ps] (zip (map fillna_plant ps) fps)))
         = unmerged_rows san ps"
proof (rule nth_equalityI)
  show "length (map (\<lambda>c. (merged c)\<lparr>Unit := new_name san c\<rparr>)
           (map new_cluster (zip [0..<length ps] (zip (map fillna_plant ps) fps))))
        = length (unmerged_rows san ps)"
    using assms by (simp add: unmerged_rows_length)
next
  fix k
  assume "k < length (map (\<lambda>c. (merged c)\<lparr>Unit := new_name san c\<rparr>)
           (map new_cluster (zip [0..<length ps] (zip (map fillna_plant ps) fps))))"
  then have k: "k < length ps" using assms by simp
  then show "map (\<lambda>c. (merged c)\<lparr>Unit := new_name san c\<rparr>)
           (map new_cluster (zip [0..<length ps] (zip (map fillna_plant ps) fps))) ! k
         = unmerged_rows san ps ! k"
    using assms
    by (simp add: unmerged_rows_nth new_cluster_def new_name_def unmerged_row_def fillna_plant_def)
qed

lemma origins_new_clusters:
  assumes "length fps = length ps"
  shows "concat (map plant_orig (map new_cluster (zip [0..<length ps] (zip ps fps)))) = [0..<length ps]"
proof -
  have "map plant_orig (map new_cluster (zip [0..<length ps] (zip ps fps)))
        = map (\<lambda>k. [k]) (map fst (zip [0..<length ps] (zip ps fps)))"
    by (simp add: new_cluster_def comp_def)
  also have "\<dots> = map (\<lambda>k. [k]) [0..<length ps]"
    using assms by simp
  finally show ?thesis
    by (simp add: concat_map_singleton)
qed

lemma clustering_without_merge:
  assumes cr: "check_required plants0 = None"
    and cm: "check_method method (default_Nunits plants0) = Inr (default_Nunits plants0, OnlyOnes, warnings)"
    and sk: "set string_keys \<subseteq> set (columns plants0)"
    and ns: "0 < Nslices \<or> rows plants0 = []"
    and nm: "\<forall>p fp c. branch_of method OnlyOnes PartLoadMax Pmax p fp c = No_Merge"
    and m1: "method \<noteq> ''LP clustered''" and m2: "method \<noteq> ''Integer clustering''"
  shows "\<exists>mp. clustering san plants0 method Nslices PartLoadMax Pmax
            = Inr (\<lparr>columns = columns (default_Nunits plants0),
                    rows = unmerged_rows san (rows (default_Nunits plants0))\<rparr>,
                   mp, warnings @ [Warn_NoCluster])
          \<and> (\<forall>i < length (rows plants0).
                NewIndex mp i = Some (Unit (unmerged_rows san (rows (default_Nunits plants0)) ! i)))
          \<and> (distinct (map Unit (unmerged_rows san (rows (default_Nunits plants0)))) \<longrightarrow>
               (\<forall>i < length (rows plants0).
                  FormerIndexes mp (Unit (unmerged_rows san (rows (default_Nunits plants0)) ! i)) = Some [i]))"
proof -
  let ?P = "default_Nunits plants0"
  let ?ps = "map fillna_plant (rows ?P)"
  let ?fps = "map (\<lambda>p. projr (fingerprint Nslices p)) (rows ?P)"
  let ?todo = "zip [0..<length ?ps] (zip ?ps ?fps)"
  let ?cs = "map new_cluster ?todo"
  let ?mp = "snd (resolve_names san ?cs empty_mapping)"
  let ?out = "unmerged_rows san (rows ?P)"
  have n: "length (rows ?P) = length (rows plants0)" by (rule default_Nunits_length)
  have fp: "sequence (map (fingerprint Nslices) (rows ?P)) = Inr ?fps"
    using ns n by (intro fingerprints_defined) auto
  have "set string_keys \<subseteq> set (columns ?P)"
    using sk by (auto simp: default_Nunits_def set_column_def)
  then have "filter (\<lambda>key. key \<notin> set (columns ?P)) string_keys = []"
    by (auto simp: filter_empty_conv)
  then have fi: "fillna_frame ?P = Inr (?P\<lparr>rows := ?ps\<rparr>)"
    by (simp add: fillna_frame_def)
  have ml: "merge_loop method OnlyOnes PartLoadMax Pmax (columns ?P) ?todo [] = Inr ?cs"
    using merge_loop_No_Merge [OF nm, of "columns ?P" ?todo "[]"] by simp
  have rn: "fst (resolve_names san ?cs empty_mapping) = ?out"
    using renamed_new_clusters [of ?fps "rows ?P" san] by (simp add: resolve_names_rows)
  have pp: "postprocess method (columns ?P) ?out = Inr ?out"
    using m1 m2 by (simp add: postprocess_def)
  have r: "clustering san plants0 method Nslices PartLoadMax Pmax
            = Inr (\<lparr>columns = columns ?P, rows = ?out\<rparr>, ?mp, warnings @ [Warn_NoCluster])"
    unfolding clustering_def merge_units_def
    using cr cm fp fi ml rn pp
    by (simp add: case_prod_beta final_log_def unmerged_rows_length)
  have oc: "concat (map plant_orig ?cs) = [0..<length (rows plants0)]"
    using origins_new_clusters [of ?fps ?ps] n by simp
  have names: "map (new_name san) ?cs = map Unit ?out"
    using rn by (simp add: resolve_names_rows comp_def flip: rn)
  have ni: "\<forall>i < length (rows plants0). NewIndex ?mp i = Some (Unit (?out ! i))"
  proof (intro allI impI)
    fix i assume i: "i < length (rows plants0)"
    have dc: "distinct (concat (map plant_orig ?cs))" by (simp only: oc distinct_upt)
    have len: "length ?cs = length (rows plants0)" using n by simp
    have c: "?cs ! i \<in> set ?cs" using i len by (simp only: nth_mem)
    have "plant_orig (?cs ! i) = [i]" using i n by (simp add: new_cluster_def)
    then have "i \<in> set (plant_orig (?cs ! i))" by simp
    from NewIndex_inside [OF dc c this]
    have "NewIndex ?mp i = Some (new_name san (?cs ! i))" .
    also have "new_name san (?cs ! i) = map (new_name san) ?cs ! i"
      using i len by (simp only: nth_map)
    also have "\<dots> = Unit (?out ! i)"
      using i n by (simp only: names) (simp add: unmerged_rows_length)
    finally show "NewIndex ?mp i = Some (Unit (?out ! i))" .
  qed
  have fo: "distinct (map Unit ?out) \<longrightarrow>
               (\<forall>i < length (rows plants0). FormerIndexes ?mp (Unit (?out ! i)) = Some [i])"
  proof (intro allI impI)
    fix i assume d: "distinct (map Unit ?out)" and i: "i < length (rows plants0)"
    have dn: "distinct (map (new_name san) ?cs)" using d by (simp only: names)
    have len: "length ?cs = length (rows plants0)" using n by simp
    have c: "?cs ! i \<in> set ?cs" using i len by (simp only: nth_mem)
    have po: "plant_orig (?cs ! i) = [i]" using i n by (simp add: new_cluster_def)
    have "new_name san (?cs ! i) = map (new_name san) ?cs ! i"
      using i len by (simp only: nth_map)
    also have "\<dots> = Unit (?out ! i)"
      using i n by (simp only: names) (simp add: unmerged_rows_length)
    finally have nm: "new_name san (?cs ! i) = Unit (?out ! i)" .
    from FormerIndexes_inside [OF dn c, of empty_mapping]
    show "FormerIndexes ?mp (Unit (?out ! i)) = Some [i]"
      by (simp only: nm po)
  qed
  from r ni fo show ?thesis by blast
qed

lemma unmerged_row_cells:
  "num (unmerged_row san k p) = num p"
  "fillna (cat (unmerged_row san k p) key) = fillna (cat p key)"
  "Unit (unmerged_row san k p) = rstrip (san (str_list [k] @ '' - '' @ Unit p))"
  by (simp_all add: unmerged_row_def fillna_plant_def fillna_def)

lemma default_Nunits_cells:
  assumes "k < length (rows plants)"
  shows "key \<in> set (columns plants) \<Longrightarrow>
           num (rows (default_Nunits plants) ! k) key = num (rows plants ! k) key"
    and "cat (rows (default_Nunits plants) ! k) = cat (rows plants ! k)"
    and "Unit (rows (default_Nunits plants) ! k) = Unit (rows plants ! k)"
  using assms by (auto simp: default_Nunits_def set_column_def)

lemma check_method_Standard_not_only_ones:
  assumes "method \<in> set [''Standard'', ''MILP'']" and "\<not> only_ones plants"
  shows "check_method method plants = Inr (plants, False, [Warn_NotOnlyOnes])"
  using assms by (auto simp: check_method_def)

lemma check_method_No_clustering:
  "check_method ''No clustering'' plants = Inr (plants, only_ones plants, [])"
  by (simp add: check_method_def)

subsection \<open>Standard and MILP on a table with several units per row\<close>

text \<open>
  Claim C5, as the code has it. For a table that has the required and the categorical
  columns and a column \<^verbatim>\<open>Nunits\<close> that is not one on every row, \<^verbatim>\<open>Standard\<close> and
  \<^verbatim>\<open>MILP\<close> return a result: the warning is logged, then the message that nothing was
  clustered; the output has the input's columns and as many rows, and every row keeps
  its numbers and its categories (a missing one read as the empty string). The column
  \<^verbatim>\<open>Unit\<close> does not keep its value: it holds the new name of the row.
\<close>

theorem C5_standard_without_only_ones:
  assumes "method \<in> set [''Standard'', ''MILP'']"
    and "check_required plants0 = None"
    and "set string_keys \<subseteq> set (columns plants0)"
    and "0 < Nslices"
    and "''Nunits'' \<in> set (columns plants0)"
    and "\<not> only_ones plants0"
  shows "\<exists>out mp. clustering san plants0 method Nslices PartLoadMax Pmax
              = Inr (out, mp, [Warn_NotOnlyOnes, Warn_NoCluster])
          \<and> columns out = columns plants0
          \<and> length (rows out) = length (rows plants0)
          \<and> (\<forall>k < length (rows plants0).
                num (rows out ! k) = num (rows plants0 ! k)
              \<and> (\<forall>key. fillna (cat (rows out ! k) key) = fillna (cat (rows plants0 ! k) key))
              \<and> Unit (rows out ! k) = rstrip (san (str_list [k] @ '' - '' @ Unit (rows plants0 ! k))))"
proof -
  have d: "default_Nunits plants0 = plants0"
    using assms(5) by (simp add: default_Nunits_def)
  have cm: "check_method method (default_Nunits plants0)
              = Inr (default_Nunits plants0, False, [Warn_NotOnlyOnes])"
    unfolding d using assms(1,6) by (rule check_method_Standard_not_only_ones)
  have nm: "\<forall>p fp c. branch_of method False PartLoadMax Pmax p fp c = No_Merge"
    using assms(1) by (simp only: branch_of_not_only_ones simp_thms)
  have m: "method \<noteq> ''LP clustered''" "method \<noteq> ''Integer clustering''"
    using assms(1) by auto
  from clustering_without_merge [OF assms(2) cm assms(3) _ nm m, of Nslices san] assms(4)
  obtain mp where
    r: "clustering san plants0 method Nslices PartLoadMax Pmax
          = Inr (\<lparr>columns = columns plants0, rows = unmerged_rows san (rows plants0)\<rparr>,
                 mp, [Warn_NotOnlyOnes, Warn_NoCluster])"
    unfolding d by auto
  show ?thesis
    unfolding r
    by (simp add: unmerged_rows_length unmerged_rows_nth unmerged_row_cells)
qed

theorem C5_witness:
  "\<exists>out mp. clustering shrink_to_64 units_frame ''Standard'' 20 (1 / 10) 30
              = Inr (out, mp, [Warn_NotOnlyOnes, Warn_NoCluster])
          \<and> length (rows out) = 2
          \<and> num (rows out ! 0) ''PowerCapacity'' = 10 \<and> num (rows out ! 0) ''Nunits'' = 2
          \<and> num (rows out ! 1) ''PowerCapacity'' = 20
          \<and> Unit (rows out ! 0) = ''[0] - A''"
proof -
  have h: "''Standard'' \<in> set [''Standard'', ''MILP'']"
    "check_required units_frame = None"
    "set string_keys \<subseteq> set (columns units_frame)"
    "(0::nat) < 20"
    "''Nunits'' \<in> set (columns units_frame)"
    "\<not> only_ones units_frame"
    by (simp_all add: units_frame_def check_required_def only_ones_def example_defs)
  from C5_standard_without_only_ones [OF h, of shrink_to_64 "1 / 10" 30]
  obtain out mp where
    r: "clustering shrink_to_64 units_frame ''Standard'' 20 (1 / 10) 30
              = Inr (out, mp, [Warn_NotOnlyOnes, Warn_NoCluster])"
    and l: "length (rows out) = length (rows units_frame)"
    and c: "\<forall>k < length (rows units_frame).
                num (rows out ! k) = num (rows units_frame ! k)
              \<and> (\<forall>key. fillna (cat (rows out ! k) key) = fillna (cat (rows units_frame ! k) key))
              \<and> Unit (rows out ! k) = rstrip (shrink_to_64 (str_list [k] @ '' - '' @ Unit (rows units_frame ! k)))"
    by (elim exE conjE)
  have n: "length (rows units_frame) = 2" by (simp add: units_frame_def)
  have c0: "num (rows out ! 0) = num (rows units_frame ! 0)"
    "Unit (rows out ! 0) = rstrip (shrink_to_64 (str_list [0] @ '' - '' @ Unit (rows units_frame ! 0)))"
    and c1: "num (rows out ! 1) = num (rows units_frame ! 1)"
    using c n by simp_all
  have "num (rows out ! 0) ''PowerCapacity'' = 10" "num (rows out ! 0) ''Nunits'' = 2"
    "num (rows out ! 1) ''PowerCapacity'' = 20"
    using c0 c1 by (simp_all add: units_frame_def example_plant_def)
  moreover have "Unit (rows out ! 0) = ''[0] - A''"
    by (simp add: c0 units_frame_def example_plant_def str_list_def digit_char_def rstrip_def
          whitespace_def shrink_to_64_def)
  ultimately show ?thesis using r l n by simp
qed

lemma units_frame_Standard:
  "\<exists>mp. clustering shrink_to_64 units_frame ''Standard'' 20 (1 / 10) 30
          = Inr (\<lparr>columns = columns units_frame, rows = unmerged_rows shrink_to_64 (rows units_frame)\<rparr>,
                 mp, [Warn_NotOnlyOnes, Warn_NoCluster])"
proof -
  have u: "''Nunits'' \<in> set (columns units_frame)" "\<not> only_ones units_frame"
    "check_required units_frame = None" "set string_keys \<subseteq> set (columns units_frame)"
    by (simp_all add: units_frame_def check_required_def only_ones_def example_defs)
  have d: "default_Nunits units_frame = units_frame"
    using u(1) by (simp add: default_Nunits_def)
  have cm: "check_method ''Standard'' (default_Nunits units_frame)
              = Inr (default_Nunits units_frame, False, [Warn_NotOnlyOnes])"
    unfolding d using u(2) by (intro check_method_Standard_not_only_ones) simp_all
  have nm: "\<forall>p fp c. branch_of ''Standard'' False (1 / 10) 30 p fp c = No_Merge"
    by (simp add: branch_of_not_only_ones)
  from clustering_without_merge [OF u(3) cm u(4) _ nm, of 20 shrink_to_64]
  show ?thesis unfolding d by auto
qed

text \<open>
  The claim as stated fails on the column \<^verbatim>\<open>Unit\<close>: the output is not the input
  table, its first unit is named \<^verbatim>\<open>[0] - A\<close> and no longer \<^verbatim>\<open>A\<close>.
\<close>

theorem C5_counterexample:
  "''Nunits'' \<in> set (columns units_frame) \<and> \<not> only_ones units_frame
   \<and> \<not> isl (clustering shrink_to_64 units_frame ''Standard'' 20 (1 / 10) 30)
   \<and> Unit (rows (fst (projr (clustering shrink_to_64 units_frame ''Standard'' 20 (1 / 10) 30))) ! 0)
       = ''[0] - A''
   \<and> Unit (rows units_frame ! 0) = ''A''
   \<and> fst (projr (clustering shrink_to_64 units_frame ''Standard'' 20 (1 / 10) 30)) \<noteq> units_frame"
proof -
  from units_frame_Standard obtain mp where
    r: "clustering shrink_to_64 units_frame ''Standard'' 20 (1 / 10) 30
          = Inr (\<lparr>columns = columns units_frame, rows = unmerged_rows shrink_to_64 (rows units_frame)\<rparr>,
                 mp, [Warn_NotOnlyOnes, Warn_NoCluster])"
    by (elim exE)
  have u: "''Nunits'' \<in> set (columns units_frame)" "\<not> only_ones units_frame"
    by (simp_all add: units_frame_def only_ones_def example_defs)
  have a: "Unit (rows units_frame ! 0) = ''A''"
    by (simp add: units_frame_def example_plant_def)
  have "0 < length (rows units_frame)" by (simp add: units_frame_def)
  then have "Unit (unmerged_rows shrink_to_64 (rows units_frame) ! 0)
      = rstrip (shrink_to_64 (str_list [0] @ '' - '' @ Unit (rows units_frame ! 0)))"
    by (simp only: unmerged_rows_nth unmerged_row_cells)
  then have b: "Unit (unmerged_rows shrink_to_64 (rows units_frame) ! 0) = ''[0] - A''"
    by (simp add: a str_list_def digit_char_def rstrip_def whitespace_def shrink_to_64_def)
  have c: "\<lparr>columns = columns units_frame, rows = unmerged_rows shrink_to_64 (rows units_frame)\<rparr>
          \<noteq> units_frame"
  proof
    assume "\<lparr>columns = columns units_frame, rows = unmerged_rows shrink_to_64 (rows units_frame)\<rparr>
          = units_frame"
    then have "rows \<lparr>columns = columns units_frame, rows = unmerged_rows shrink_to_64 (rows units_frame)\<rparr>
          = rows units_frame"
      by (rule arg_cong)
    then have "unmerged_rows shrink_to_64 (rows units_frame) = rows units_frame"
      by simp
    then have "Unit (unmerged_rows shrink_to_64 (rows units_frame) ! 0) = Unit (rows units_frame ! 0)"
      by (rule arg_cong)
    then show False by (simp only: a b) simp
  qed
  have "\<not> isl (clustering shrink_to_64 units_frame ''Standard'' 20 (1 / 10) 30)"
    by (simp only: r sum.disc simp_thms)
  moreover have "fst (projr (clustering shrink_to_64 units_frame ''Standard'' 20 (1 / 10) 30))
      = \<lparr>columns = columns units_frame, rows = unmerged_rows shrink_to_64 (rows units_frame)\<rparr>"
    by (simp only: r sum.sel fst_conv)
  ultimately show ?thesis using u a b c by (simp only: frame.select_convs simp_thms)
qed

subsection \<open>No clustering\<close>

text \<open>
  Claim C8, as the code has it. For a table that has the required and the categorical
  columns, with a slice at least or no row, the method
  \<^verbatim>\<open>No clustering\<close> returns as many rows as the input has; row \<open>i\<close> has the cells
  of input row \<open>i\<close> in every column of the input (a missing category read as the
  empty string), its name is built from \<open>i\<close> and the old name, \<^verbatim>\<open>NewIndex[i]\<close> is
  that name and, the names being pairwise distinct, \<^verbatim>\<open>FormerIndexes\<close> of that name
  is the list \<open>[i]\<close>.
\<close>

theorem C8_no_clustering_is_identity:
  assumes "check_required plants0 = None"
    and "set string_keys \<subseteq> set (columns plants0)"
    and "0 < Nslices \<or> rows plants0 = []"
  shows "\<exists>out mp. clustering san plants0 ''No clustering'' Nslices PartLoadMax Pmax
              = Inr (out, mp, [Warn_NoCluster])
          \<and> length (rows out) = length (rows plants0)
          \<and> (\<forall>i < length (rows plants0).
                (\<forall>key \<in> set (columns plants0).
                    num (rows out ! i) key = num (rows plants0 ! i) key
                  \<and> fillna (cat (rows out ! i) key) = fillna (cat (rows plants0 ! i) key))
              \<and> Unit (rows out ! i) = rstrip (san (str_list [i] @ '' - '' @ Unit (rows plants0 ! i)))
              \<and> NewIndex mp i = Some (Unit (rows out ! i))
              \<and> (distinct (map Unit (rows out)) \<longrightarrow>
                   FormerIndexes mp (Unit (rows out ! i)) = Some [i]))"
proof -
  let ?P = "default_Nunits plants0"
  let ?out = "\<lparr>columns = columns ?P, rows = unmerged_rows san (rows ?P)\<rparr>"
  have cm: "check_method ''No clustering'' ?P = Inr (?P, only_ones ?P, [])"
    by (rule check_method_No_clustering)
  have nm: "\<forall>p fp c. branch_of ''No clustering'' (only_ones ?P) PartLoadMax Pmax p fp c = No_Merge"
    by (simp add: branch_of_no_clustering)
  from clustering_without_merge [OF assms(1) cm assms(2,3) nm, of san]
  obtain mp where
    r: "clustering san plants0 ''No clustering'' Nslices PartLoadMax Pmax = Inr (?out, mp, [Warn_NoCluster])"
    and ni: "\<forall>i < length (rows plants0). NewIndex mp i = Some (Unit (unmerged_rows san (rows ?P) ! i))"
    and fi: "distinct (map Unit (unmerged_rows san (rows ?P))) \<longrightarrow>
               (\<forall>i < length (rows plants0).
                  FormerIndexes mp (Unit (unmerged_rows san (rows ?P) ! i)) = Some [i])"
    by auto
  have n: "length (rows ?P) = length (rows plants0)" by (rule default_Nunits_length)
  have cells: "\<forall>i < length (rows plants0).
                (\<forall>key \<in> set (columns plants0).
                    num (rows ?out ! i) key = num (rows plants0 ! i) key
                  \<and> fillna (cat (rows ?out ! i) key) = fillna (cat (rows plants0 ! i) key))
              \<and> Unit (rows ?out ! i) = rstrip (san (str_list [i] @ '' - '' @ Unit (rows plants0 ! i)))"
    using n by (simp add: unmerged_rows_nth unmerged_row_cells default_Nunits_cells)
  have "length (rows ?out) = length (rows plants0)"
    using n by (simp add: unmerged_rows_length)
  with r ni fi cells show ?thesis
    by (intro exI [of _ ?out] exI [of _ mp]) simp
qed

lemma example_names:
  "rstrip (shrink_to_64 (str_list [0] @ '' - '' @ ''A'')) = ''[0] - A''"
  "rstrip (shrink_to_64 (str_list [1] @ '' - '' @ ''B'')) = ''[1] - B''"
  "rstrip (shrink_to_64 (str_list [2] @ '' - '' @ ''C'')) = ''[2] - C''"
  by (simp_all add: str_list_def digit_char_def rstrip_def whitespace_def shrink_to_64_def)

theorem C8_witness:
  "\<exists>out mp. clustering shrink_to_64 merge_frame ''No clustering'' 20 (1 / 10) 30
              = Inr (out, mp, [Warn_NoCluster])
          \<and> length (rows out) = 3
          \<and> num (rows out ! 1) ''PowerCapacity'' = 20
          \<and> distinct (map Unit (rows out))
          \<and> NewIndex mp 1 = Some ''[1] - B''
          \<and> FormerIndexes mp ''[1] - B'' = Some [1]"
proof -
  have h: "check_required merge_frame = None"
    "set string_keys \<subseteq> set (columns merge_frame)"
    "0 < (20::nat) \<or> rows merge_frame = []"
    by (simp_all add: merge_frame_def check_required_def example_defs)
  have n: "length (rows merge_frame) = 3" by (simp add: merge_frame_def)
  from C8_no_clustering_is_identity [OF h, of shrink_to_64 "1 / 10" 30]
  obtain out mp where
    r: "clustering shrink_to_64 merge_frame ''No clustering'' 20 (1 / 10) 30
              = Inr (out, mp, [Warn_NoCluster])"
    and l: "length (rows out) = length (rows merge_frame)"
    and c: "\<forall>i < length (rows merge_frame).
                (\<forall>key \<in> set (columns merge_frame).
                    num (rows out ! i) key = num (rows merge_frame ! i) key
                  \<and> fillna (cat (rows out ! i) key) = fillna (cat (rows merge_frame ! i) key))
              \<and> Unit (rows out ! i)
                  = rstrip (shrink_to_64 (str_list [i] @ '' - '' @ Unit (rows merge_frame ! i)))
              \<and> NewIndex mp i = Some (Unit (rows out ! i))
              \<and> (distinct (map Unit (rows out)) \<longrightarrow>
                   FormerIndexes mp (Unit (rows out ! i)) = Some [i])"
    by (elim exE conjE)
  have l3: "length (rows out) = 3" using l n by simp
  have i: "0 < length (rows merge_frame)" "1 < length (rows merge_frame)"
    "2 < length (rows merge_frame)"
    by (simp_all add: n)
  note c0 = c [THEN spec, of 0, THEN mp, OF i(1)]
  note c1 = c [THEN spec, of 1, THEN mp, OF i(2)]
  note c2 = c [THEN spec, of 2, THEN mp, OF i(3)]
  have r0: "Unit (rows merge_frame ! 0) = ''A''" and r1: "Unit (rows merge_frame ! 1) = ''B''"
    and r2: "Unit (rows merge_frame ! 2) = ''C''"
    by (simp_all add: merge_frame_def example_plant_def)
  have u0: "Unit (rows out ! 0) = ''[0] - A''"
    using c0 by (simp only: r0 example_names)
  have u1: "Unit (rows out ! 1) = ''[1] - B''"
    using c1 by (simp only: r1 example_names)
  have u2: "Unit (rows out ! 2) = ''[2] - C''"
    using c2 by (simp only: r2 example_names)
  obtain x0 x1 x2 where rs: "rows out = [x0, x1, x2]"
    using l3 by (auto simp: length_Suc_conv numeral_3_eq_3)
  have d: "distinct (map Unit (rows out))"
    using u0 u1 u2 by (simp add: rs)
  have pc: "''PowerCapacity'' \<in> set (columns merge_frame)"
    by (simp add: merge_frame_def example_defs)
  have "num (rows out ! 1) ''PowerCapacity'' = num (rows merge_frame ! 1) ''PowerCapacity''"
    using c1 pc by blast
  then have p: "num (rows out ! 1) ''PowerCapacity'' = 20"
    by (simp add: merge_frame_def example_plant_def)
  have "NewIndex mp 1 = Some (Unit (rows out ! 1))"
    "FormerIndexes mp (Unit (rows out ! 1)) = Some [1]"
    using c1 d by blast+
  then have "NewIndex mp 1 = Some ''[1] - B''" "FormerIndexes mp ''[1] - B'' = Some [1]"
    by (simp_all only: u1)
  with r l3 p d show ?thesis by blast
qed

lemma no_chp_frame_run:
  "clustering shrink_to_64 no_chp_frame ''No clustering'' 20 (1 / 10) 30 = Inl (KeyError ''CHPType'')"
proof -
  have cr: "check_required no_chp_frame = None"
    by (simp add: check_required_def no_chp_frame_def required_inputs_def)
  have d: "default_Nunits no_chp_frame = no_chp_frame"
    by (simp add: default_Nunits_def no_chp_frame_def)
  have cm: "check_method ''No clustering'' no_chp_frame
              = Inr (no_chp_frame, only_ones no_chp_frame, [])"
    by (rule check_method_No_clustering)
  have fp: "sequence (map (fingerprint 20) (rows no_chp_frame))
              = Inr (map (\<lambda>p. projr (fingerprint 20 p)) (rows no_chp_frame))"
    by (rule fingerprints_defined) simp
  have fi: "fillna_frame no_chp_frame = Inl (KeyError ''CHPType'')"
    by (simp add: fillna_frame_def no_chp_frame_def required_inputs_def string_keys_def)
  show ?thesis
    unfolding clustering_def merge_units_def
    by (simp only: cr d cm fp fi option.case sum.case prod.case)
qed

lemma merge_frame_no_slices:
  "clustering shrink_to_64 merge_frame ''No clustering'' 0 (1 / 10) 30 = Inl ValueError"
  by (simp add: merge_frame_def run_defs example_defs)

lemma merge_frame_No_clustering:
  "\<exists>mp. clustering shrink_to_64 merge_frame ''No clustering'' 20 (1 / 10) 30
          = Inr (\<lparr>columns = columns merge_frame, rows = unmerged_rows shrink_to_64 (rows merge_frame)\<rparr>,
                 mp, [Warn_NoCluster])"
proof -
  have u: "check_required merge_frame = None" "set string_keys \<subseteq> set (columns merge_frame)"
    "''Nunits'' \<in> set (columns merge_frame)"
    by (simp_all add: merge_frame_def check_required_def example_defs)
  have d: "default_Nunits merge_frame = merge_frame"
    using u(3) by (simp add: default_Nunits_def)
  have cm: "check_method ''No clustering'' (default_Nunits merge_frame)
              = Inr (default_Nunits merge_frame, only_ones merge_frame, [])"
    unfolding d by (rule check_method_No_clustering)
  have nm: "\<forall>p fp c. branch_of ''No clustering'' (only_ones merge_frame) (1 / 10) 30 p fp c = No_Merge"
    by (simp add: branch_of_no_clustering)
  from clustering_without_merge [OF u(1) cm u(2) _ nm, of 20 shrink_to_64]
  show ?thesis unfolding d by auto
qed

text \<open>
  The claim as stated fails: a table that has every required column but not
  \<^verbatim>\<open>CHPType\<close> ends in a KeyError, no slice at all ends in a ValueError, and a missing
  \<^verbatim>\<open>Technology\<close> of the input is the empty string in the output.
\<close>

theorem C8_counterexample:
  "check_required no_chp_frame = None
   \<and> clustering shrink_to_64 no_chp_frame ''No clustering'' 20 (1 / 10) 30 = Inl (KeyError ''CHPType'')
   \<and> clustering shrink_to_64 merge_frame ''No clustering'' 0 (1 / 10) 30 = Inl ValueError
   \<and> \<not> isl (clustering shrink_to_64 merge_frame ''No clustering'' 20 (1 / 10) 30)
   \<and> cat (rows merge_frame ! 0) ''Technology'' = None
   \<and> cat (rows (fst (projr (clustering shrink_to_64 merge_frame ''No clustering'' 20 (1 / 10) 30))) ! 0)
        ''Technology'' = Some []"
proof -
  have cr: "check_required no_chp_frame = None"
    by (simp add: check_required_def no_chp_frame_def required_inputs_def)
  from merge_frame_No_clustering obtain mp where
    r: "clustering shrink_to_64 merge_frame ''No clustering'' 20 (1 / 10) 30
          = Inr (\<lparr>columns = columns merge_frame, rows = unmerged_rows shrink_to_64 (rows merge_frame)\<rparr>,
                 mp, [Warn_NoCluster])"
    by (elim exE)
  have a: "cat (rows merge_frame ! 0) ''Technology'' = None"
    by (simp add: merge_frame_def example_plant_def)
  have "0 < length (rows merge_frame)" by (simp add: merge_frame_def)
  then have "unmerged_rows shrink_to_64 (rows merge_frame) ! 0
               = unmerged_row shrink_to_64 0 (rows merge_frame ! 0)"
    by (rule unmerged_rows_nth)
  then have b: "cat (unmerged_rows shrink_to_64 (rows merge_frame) ! 0) ''Technology'' = Some []"
    by (simp add: unmerged_row_def fillna_plant_def fillna_def string_keys_def a)
  have "\<not> isl (clustering shrink_to_64 merge_frame ''No clustering'' 20 (1 / 10) 30)"
    by (simp only: r sum.disc simp_thms)
  moreover have "fst (projr (clustering shrink_to_64 merge_frame ''No clustering'' 20 (1 / 10) 30))
      = \<lparr>columns = columns merge_frame, rows = unmerged_rows shrink_to_64 (rows merge_frame)\<rparr>"
    by (simp only: r sum.sel fst_conv)
  ultimately show ?thesis
    using cr no_chp_frame_run merge_frame_no_slices a b
    by (simp only: frame.select_convs simp_thms)
qed

subsection \<open>The sum of the capacities\<close>

text \<open>
  A Standard or LP clustered merge adds the capacity of the plant to that of the
  cluster, the names and the LP finalisation leave the capacities alone: the loop keeps
  the sum over the clusters and the plants still to come.
\<close>

lemma total_capacity_simps:
  "total_capacity [] = 0"
  "total_capacity (p # ps) = num p ''PowerCapacity'' + total_capacity ps"
  "total_capacity (ps @ qs) = total_capacity ps + total_capacity qs"
  by (simp_all add: total_capacity_def)

lemma standard_key_capacity:
  "standard_key m p ''PowerCapacity'' = num m ''PowerCapacity'' + num p ''PowerCapacity''"
proof -
  have "''PowerCapacity'' \<notin> set weighted_standard" "''PowerCapacity'' \<in> set capacity_keys"
    by (simp_all add: weighted_standard_def capacity_keys_def)
  then show ?thesis
    unfolding standard_key_def Let_def by (simp only: if_True if_False)
qed

lemma LP_key_capacity:
  "LP_key m p ''PowerCapacity'' = num m ''PowerCapacity'' + num p ''PowerCapacity''"
proof -
  have "''PowerCapacity'' \<notin> set weighted_LP" "''PowerCapacity'' \<in> set capacity_keys"
    by (simp_all add: weighted_LP_def capacity_keys_def)
  then show ?thesis
    unfolding LP_key_def Let_def by (simp only: if_True if_False)
qed

lemma merge_with_capacity:
  assumes "merge_with b cols m p = Inr m'" and "b = Merge_Standard \<or> b = Merge_LP"
    and "''PowerCapacity'' \<in> set cols"
  shows "num m' ''PowerCapacity'' = num m ''PowerCapacity'' + num p ''PowerCapacity''"
  using assms(2)
proof
  assume "b = Merge_Standard"
  with assms(1) have "merge_standard cols m p = Inr m'" by (simp add: merge_with_def)
  from merge_standard_num [OF this assms(3)] show ?thesis by (simp only: standard_key_capacity)
next
  assume "b = Merge_LP"
  with assms(1) have "merge_LP cols m p = Inr m'" by (simp add: merge_with_def)
  from merge_LP_num [OF this assms(3)] show ?thesis by (simp only: LP_key_capacity)
qed

lemma branch_of_not_integer:
  "method \<noteq> ''Integer clustering'' \<Longrightarrow>
   branch_of method OnlyOnes PartLoadMax Pmax p fp c \<noteq> Merge_Integer"
  by (simp add: branch_of_def)

lemma try_merge_capacity:
  assumes "method \<noteq> ''Integer clustering''" and "''PowerCapacity'' \<in> set cols"
  shows "try_merge method OnlyOnes PartLoadMax Pmax cols i p fp cs = Inr (Some cs') \<Longrightarrow>
         total_capacity (map merged cs') = total_capacity (map merged cs) + num p ''PowerCapacity''"
proof (induction cs arbitrary: cs')
  case Nil
  then show ?case by simp
next
  case (Cons c cs)
  let ?b = "branch_of method OnlyOnes PartLoadMax Pmax p fp c"
  show ?case
  proof (cases "?b = No_Merge")
    case True
    with Cons.prems obtain cs'' where
      t: "try_merge method OnlyOnes PartLoadMax Pmax cols i p fp cs = Inr (Some cs'')"
      and c: "cs' = c # cs''"
      by (auto simp: Let_def split: sum.splits option.splits)
    from Cons.IH [OF t] show ?thesis by (simp add: c total_capacity_simps)
  next
    case False
    with Cons.prems obtain m' where
      m: "merge_with ?b cols (merged c) p = Inr m'"
      and c: "cs' = c\<lparr>merged := m', plant_orig := plant_orig c @ [i]\<rparr> # cs"
      by (auto simp: Let_def split: sum.splits)
    from False branch_of_not_integer [OF assms(1), of OnlyOnes PartLoadMax Pmax p fp c]
    have "?b = Merge_Standard \<or> ?b = Merge_LP" by (cases ?b) simp_all
    from merge_with_capacity [OF m this assms(2)] show ?thesis
      by (simp add: c total_capacity_simps)
  qed
qed

lemma merge_loop_capacity:
  assumes "method \<noteq> ''Integer clustering''" and "''PowerCapacity'' \<in> set cols"
  shows "merge_loop method OnlyOnes PartLoadMax Pmax cols todo cs = Inr cs' \<Longrightarrow>
         total_capacity (map merged cs')
           = total_capacity (map merged cs) + total_capacity (map (\<lambda>x. fst (snd x)) todo)"
proof (induction todo arbitrary: cs)
  case Nil
  then show ?case by (simp add: total_capacity_simps)
next
  case (Cons x todo)
  obtain i p fp where x: "x = (i, p, fp)" by (cases x) auto
  show ?case
  proof (cases "try_merge method OnlyOnes PartLoadMax Pmax cols i p fp cs")
    case (Inl e)
    with Cons.prems show ?thesis by (simp add: x)
  next
    case (Inr r)
    show ?thesis
    proof (cases r)
      case None
      with Inr Cons.prems have
        "merge_loop method OnlyOnes PartLoadMax Pmax cols todo
           (cs @ [\<lparr>merged = p, plant_orig = [i], fingerprint_merged = fp\<rparr>]) = Inr cs'"
        by (simp add: x)
      from Cons.IH [OF this] show ?thesis by (simp add: x total_capacity_simps)
    next
      case (Some cs1)
      with Inr Cons.prems have "merge_loop method OnlyOnes PartLoadMax Pmax cols todo cs1 = Inr cs'"
        by (simp add: x)
      moreover from Inr Some have
        "try_merge method OnlyOnes PartLoadMax Pmax cols i p fp cs = Inr (Some cs1)"
        by simp
      ultimately show ?thesis
        using Cons.IH [of cs1] try_merge_capacity [OF assms, of _ _ _ i p fp cs cs1]
        by (simp add: x total_capacity_simps)
    qed
  qed
qed

lemma total_capacity_map:
  "(\<And>p. p \<in> set ps \<Longrightarrow> num (f p) ''PowerCapacity'' = num p ''PowerCapacity'') \<Longrightarrow>
   total_capacity (map f ps) = total_capacity ps"
  by (induction ps) (simp_all add: total_capacity_simps)

lemma ramping_row_capacity:
  "num (ramping_row p) ''PowerCapacity'' = num p ''PowerCapacity''"
  by (simp add: ramping_row_def Let_def)

lemma postprocess_capacity:
  assumes "postprocess method cols ps = Inr ps'" and "method \<noteq> ''Integer clustering''"
  shows "total_capacity ps' = total_capacity ps"
proof (cases "method = ''LP clustered''")
  case True
  with assms have "ps' = map ramping_row ps"
    by (auto simp: postprocess_def LP_postprocess_def split: if_splits)
  then show ?thesis
    by (simp add: total_capacity_map ramping_row_capacity)
next
  case False
  with assms show ?thesis by (simp add: postprocess_def)
qed

lemma check_required_None:
  assumes "check_required plants = None"
  shows "set required_inputs \<subseteq> set (columns plants)"
proof -
  from assms have "filter (\<lambda>input. input \<notin> set (columns plants)) required_inputs = []"
    by (simp add: check_required_def split: list.splits)
  then show ?thesis by (auto simp: filter_empty_conv)
qed

lemma check_required_capacity:
  "check_required plants = None \<Longrightarrow> ''PowerCapacity'' \<in> set (columns plants)"
  using check_required_None [of plants] by (auto simp: required_inputs_def)

lemma default_Nunits_capacity:
  "total_capacity (rows (default_Nunits plants)) = total_capacity (rows plants)"
  by (simp add: default_Nunits_def set_column_def total_capacity_map)

lemma default_Nunits_not_only_ones:
  "\<not> only_ones (default_Nunits plants) \<Longrightarrow> default_Nunits plants = plants"
  by (auto simp: default_Nunits_def set_column_def only_ones_def list_all_iff)

lemma expand_Nunits_capacity:
  assumes "''PowerCapacity'' \<in> set (columns plants)"
  shows "total_capacity (rows (expand_Nunits plants)) = expanded_capacity (rows plants)"
proof -
  have "''PowerCapacity'' \<in> set capacity_keys" by (simp add: capacity_keys_def)
  then have "\<And>p. num (expand_plant (columns plants) p) ''PowerCapacity''
              = num p ''Nunits'' * num p ''PowerCapacity''"
    using assms by (simp add: expand_plant_def)
  then show ?thesis
    by (simp add: expand_Nunits_def total_capacity_def expanded_capacity_def comp_def)
qed

lemma check_method_capacity:
  assumes "check_method method plants = Inr (plants1, OnlyOnes, warnings)"
    and "''PowerCapacity'' \<in> set (columns plants)"
  shows "total_capacity (rows plants1)
           = (if method = ''LP clustered'' \<and> \<not> only_ones plants
              then expanded_capacity (rows plants) else total_capacity (rows plants))"
proof (cases "method = ''LP clustered'' \<and> \<not> only_ones plants")
  case True
  with assms(1) have "plants1 = expand_Nunits plants"
    by (simp add: check_method_def)
  with True expand_Nunits_capacity [OF assms(2)] show ?thesis by simp
next
  case False
  with assms(1) have "plants1 = plants"
    by (auto simp: check_method_def Let_def split: if_splits)
  with False show ?thesis by auto
qed

lemma todo_plants:
  "length fps = length ps \<Longrightarrow> map (\<lambda>x. fst (snd x)) (zip [0..<length ps] (zip ps fps)) = ps"
  by (rule nth_equalityI) simp_all

text \<open>
  Claim C2, as the code has it. For every method but \<^verbatim>\<open>Integer clustering\<close>, a run
  that returns a table returns one whose capacities sum to those of the input table;
  under \<^verbatim>\<open>LP clustered\<close> with some \<^verbatim>\<open>Nunits\<close> other than one, where each capacity is
  first multiplied by the row's \<^verbatim>\<open>Nunits\<close>, the sum is that of the products.
\<close>

theorem C2_capacity_conserved_without_integer:
  assumes "clustering san plants0 method Nslices PartLoadMax Pmax = Inr (out, mp, lg)"
    and "method \<noteq> ''Integer clustering''"
  shows "total_capacity (rows out)
           = (if method = ''LP clustered'' \<and> \<not> only_ones (default_Nunits plants0)
              then expanded_capacity (rows plants0) else total_capacity (rows plants0))"
proof -
  from assms(1) obtain plants1 OnlyOnes warnings fps plants cs final where
    cr: "check_required plants0 = None"
    and cm: "check_method method (default_Nunits plants0) = Inr (plants1, OnlyOnes, warnings)"
    and fp: "sequence (map (fingerprint Nslices) (rows plants1)) = Inr fps"
    and fi: "fillna_frame plants1 = Inr plants"
    and ml: "merge_loop method OnlyOnes PartLoadMax Pmax (columns plants)
       (zip [0..<length (rows plants)] (zip (rows plants) fps)) [] = Inr cs"
    and pp: "postprocess method (columns plants) (fst (resolve_names san cs empty_mapping)) = Inr final"
    and out: "out = \<lparr>columns = columns plants, rows = final\<rparr>"
    by (rule clustering_Inr)
  let ?P = "default_Nunits plants0"
  have pc0: "''PowerCapacity'' \<in> set (columns plants0)"
    using cr by (rule check_required_capacity)
  then have pcP: "''PowerCapacity'' \<in> set (columns ?P)"
    by (auto simp: default_Nunits_def set_column_def)
  have cols1: "columns plants1 = columns ?P"
    using cm by (auto simp: check_method_def Let_def expand_Nunits_def split: if_splits)
  have pl: "plants = plants1\<lparr>rows := map fillna_plant (rows plants1)\<rparr>"
    using fillna_frame_Inr [OF fi] by simp
  have pc: "''PowerCapacity'' \<in> set (columns plants)"
    using pcP by (simp add: pl cols1)
  have len: "length fps = length (rows plants)"
    using sequence_length [OF fp] by (simp add: pl)
  have "total_capacity (rows out) = total_capacity (fst (resolve_names san cs empty_mapping))"
    using postprocess_capacity [OF pp assms(2)] by (simp add: out)
  also have "\<dots> = total_capacity (map merged cs)"
    by (simp add: resolve_names_rows total_capacity_def comp_def)
  also have "\<dots> = total_capacity (rows plants)"
    using merge_loop_capacity [OF assms(2) pc ml] todo_plants [OF len]
    by (simp add: total_capacity_simps)
  also have "\<dots> = total_capacity (rows plants1)"
    by (simp add: pl total_capacity_map fillna_plant_def)
  also have "\<dots> = (if method = ''LP clustered'' \<and> \<not> only_ones ?P
              then expanded_capacity (rows ?P) else total_capacity (rows ?P))"
    using cm pcP by (rule check_method_capacity)
  also have "\<dots> = (if method = ''LP clustered'' \<and> \<not> only_ones ?P
              then expanded_capacity (rows plants0) else total_capacity (rows plants0))"
    using default_Nunits_not_only_ones [of plants0]
    by (auto simp: default_Nunits_capacity)
  finally show ?thesis .
qed

lemma expansion_frame_LP_clustered:
  "\<exists>out mp lg. clustering shrink_to_64 expansion_frame ''LP clustered'' 1 (1 / 10) 30
     = Inr (out, mp, lg)"
  by (simp add: expansion_frame_def run_defs test_defs example_defs Let_def)

lemma merge_frame_Integer:
  "\<exists>out mp lg. clustering shrink_to_64 merge_frame ''Integer clustering'' 1 (1 / 10) 30
       = Inr (out, mp, lg)
     \<and> map (\<lambda>p. num p ''PowerCapacity'') (rows out) = [15, 100]
     \<and> map (\<lambda>p. num p ''Nunits'') (rows out) = [2, 1]"
  by (simp add: merge_frame_def run_defs test_defs example_defs np_round_def Let_def)

theorem C2_witness:
  "(\<exists>out mp lg. clustering shrink_to_64 merge_frame ''Standard'' 1 (1 / 10) 30 = Inr (out, mp, lg)
      \<and> length (rows out) = 2 \<and> total_capacity (rows out) = 130)
   \<and> (\<exists>out mp lg. clustering shrink_to_64 expansion_frame ''LP clustered'' 1 (1 / 10) 30
        = Inr (out, mp, lg)
      \<and> total_capacity (rows out) = 30 \<and> total_capacity (rows expansion_frame) = 10)"
proof -
  from merge_frame_Standard obtain out mp lg where
    r: "clustering shrink_to_64 merge_frame ''Standard'' 1 (1 / 10) 30 = Inr (out, mp, lg)"
    and u: "map Unit (rows out) = [''[0, 1] - Z -  -  -'', ''[2] - C'']"
    by (elim exE conjE)
  have m: "''Standard'' \<noteq> ''Integer clustering''" by simp
  have "length (map Unit (rows out)) = 2" by (simp only: u) simp
  then have l: "length (rows out) = 2" by simp
  have t: "total_capacity (rows out) = 130"
    using C2_capacity_conserved_without_integer [OF r m]
    by (simp add: merge_frame_def total_capacity_def example_plant_def)
  from expansion_frame_LP_clustered obtain out' mp' lg' where
    r': "clustering shrink_to_64 expansion_frame ''LP clustered'' 1 (1 / 10) 30 = Inr (out', mp', lg')"
    by (elim exE)
  have m': "''LP clustered'' \<noteq> ''Integer clustering''" by simp
  have o: "\<not> only_ones (default_Nunits expansion_frame)"
    by (simp add: default_Nunits_def only_ones_def expansion_frame_def example_defs)
  have t': "total_capacity (rows out') = 30"
    using C2_capacity_conserved_without_integer [OF r' m'] o
    by (simp add: expansion_frame_def expanded_capacity_def example_plant_def)
  have t0: "total_capacity (rows expansion_frame) = 10"
    by (simp add: expansion_frame_def total_capacity_def example_plant_def)
  from r l t r' t' t0 show ?thesis by blast
qed

text \<open>
  The claim as stated fails under \<^verbatim>\<open>Integer clustering\<close>, which averages the
  capacities with \<^verbatim>\<open>Nunits\<close> as weights and adds up \<^verbatim>\<open>Nunits\<close>: plants of
  capacity 10, 20 and 100 come out as rows of capacity 15 (two units) and 100.
\<close>

theorem C2_counterexample:
  "\<not> isl (clustering shrink_to_64 merge_frame ''Integer clustering'' 1 (1 / 10) 30)
   \<and> total_capacity (rows (fst (projr
        (clustering shrink_to_64 merge_frame ''Integer clustering'' 1 (1 / 10) 30)))) = 115
   \<and> total_capacity (rows merge_frame) = 130"
proof -
  from merge_frame_Integer obtain out mp lg where
    r: "clustering shrink_to_64 merge_frame ''Integer clustering'' 1 (1 / 10) 30 = Inr (out, mp, lg)"
    and c: "map (\<lambda>p. num p ''PowerCapacity'') (rows out) = [15, 100]"
    by (elim exE conjE)
  have "total_capacity (rows out) = 115"
    by (simp add: total_capacity_def c)
  moreover have "total_capacity (rows merge_frame) = 130"
    by (simp add: merge_frame_def total_capacity_def example_plant_def)
  ultimately show ?thesis unfolding r by simp
qed

subsection \<open>The ramping cost of LP clustered\<close>

lemma ramping_row_cells:
  "num p ''RampingCost'' \<noteq> 0 \<Longrightarrow> ramping_row p = p"
  "Unit (ramping_row p) = Unit p"
  "cat (ramping_row p) = cat p"
  "key \<noteq> ''RampingCost'' \<Longrightarrow> num (ramping_row p) key = num p key"
  "num p ''RampingCost'' = 0 \<Longrightarrow>
     num (ramping_row p) ''RampingCost'' = num p ''StartUpCost'' / num p ''PowerCapacity''"
  by (simp_all add: ramping_row_def Let_def)


lemma LP_postprocess_Inr:
  "postprocess ''LP clustered'' cols ps = Inr ps' \<Longrightarrow> ps' = map ramping_row ps"
  by (auto simp: postprocess_def LP_postprocess_def split: if_splits)





subsection \<open>The merged PartLoadMin and StartUpTime\<close>

lemma try_merge_Some:
  assumes "try_merge method OnlyOnes PartLoadMax Pmax cols i p fp cs = Inr (Some cs')"
  shows "\<exists>j m'. j < length cs
           \<and> (\<forall>k < j. branch_of method OnlyOnes PartLoadMax Pmax p fp (cs ! k) = No_Merge)
           \<and> branch_of method OnlyOnes PartLoadMax Pmax p fp (cs ! j) \<noteq> No_Merge
           \<and> merge_with (branch_of method OnlyOnes PartLoadMax Pmax p fp (cs ! j)) cols
                 (merged (cs ! j)) p = Inr m'
           \<and> cs' = cs[j := (cs ! j)\<lparr>merged := m', plant_orig := plant_orig (cs ! j) @ [i]\<rparr>]"
  using assms
proof (induction cs arbitrary: cs')
  case Nil
  then show ?case by simp
next
  case (Cons c cs)
  let ?b = "branch_of method OnlyOnes PartLoadMax Pmax p fp c"
  show ?case
  proof (cases "?b = No_Merge")
    case True
    with Cons.prems obtain cs'' where
      t: "try_merge method OnlyOnes PartLoadMax Pmax cols i p fp cs = Inr (Some cs'')"
      and c: "cs' = c # cs''"
      by (auto simp: Let_def split: sum.splits option.splits)
    from Cons.IH [OF t] obtain j m' where
      j: "j < length cs"
      and b: "\<forall>k < j. branch_of method OnlyOnes PartLoadMax Pmax p fp (cs ! k) = No_Merge"
      and nb: "branch_of method OnlyOnes PartLoadMax Pmax p fp (cs ! j) \<noteq> No_Merge"
      and m: "merge_with (branch_of method OnlyOnes PartLoadMax Pmax p fp (cs ! j)) cols
                 (merged (cs ! j)) p = Inr m'"
      and e: "cs'' = cs[j := (cs ! j)\<lparr>merged := m', plant_orig := plant_orig (cs ! j) @ [i]\<rparr>]"
      by blast
    have "\<forall>k < Suc j. branch_of method OnlyOnes PartLoadMax Pmax p fp ((c # cs) ! k) = No_Merge"
      using True b by (auto simp: less_Suc_eq_0_disj)
    with j nb m e c show ?thesis
      by (intro exI [of _ "Suc j"] exI [of _ m']) simp
  next
    case False
    with Cons.prems obtain m' where
      m: "merge_with ?b cols (merged c) p = Inr m'"
      and c: "cs' = c\<lparr>merged := m', plant_orig := plant_orig c @ [i]\<rparr> # cs"
      by (auto simp: Let_def split: sum.splits)
    with False show ?thesis
      by (intro exI [of _ 0] exI [of _ m']) simp
  qed
qed

lemma merge_with_min_keys:
  assumes "merge_with (branch_of method OnlyOnes PartLoadMax Pmax p fp c) cols m p = Inr m'"
    and "branch_of method OnlyOnes PartLoadMax Pmax p fp c \<noteq> No_Merge"
    and "key = ''PartLoadMin'' \<or> key = ''StartUpTime''"
    and "key \<in> set cols"
  shows "(method \<in> set [''Standard'', ''MILP''] \<longrightarrow>
            num m' key = min (num m key * num m ''PowerCapacity'') (num p key * num p ''PowerCapacity'')
                         / (num m ''PowerCapacity'' + num p ''PowerCapacity''))
       \<and> (method = ''LP clustered'' \<longrightarrow> num m' key = 0)"
proof -
  note bm = branch_of_method [OF refl assms(2)]
  show ?thesis
  proof (intro conjI impI)
    assume "method \<in> set [''Standard'', ''MILP'']"
    with bm have "branch_of method OnlyOnes PartLoadMax Pmax p fp c = Merge_Standard" by blast
    with assms(1) have "merge_standard cols m p = Inr m'"
      by (simp add: merge_with_def)
    from merge_standard_num [OF this assms(4)] standard_key_min [OF assms(3)]
    show "num m' key = min (num m key * num m ''PowerCapacity'') (num p key * num p ''PowerCapacity'')
                         / (num m ''PowerCapacity'' + num p ''PowerCapacity'')"
      by (simp add: add.commute)
  next
    assume "method = ''LP clustered''"
    with bm have "branch_of method OnlyOnes PartLoadMax Pmax p fp c = Merge_LP" by blast
    with assms(1) have "merge_LP cols m p = Inr m'"
      by (simp add: merge_with_def)
    from merge_LP_num [OF this assms(4)] LP_key_min [OF assms(3)]
    show "num m' key = 0" by simp
  qed
qed

lemma try_merge_min_keys:
  assumes "try_merge method OnlyOnes PartLoadMax Pmax cols i p fp cs = Inr (Some cs')"
    and "key = ''PartLoadMin'' \<or> key = ''StartUpTime''"
    and "key \<in> set cols"
  shows "\<exists>j < length cs.
           (\<forall>k < j. branch_of method OnlyOnes PartLoadMax Pmax p fp (cs ! k) = No_Merge)
         \<and> branch_of method OnlyOnes PartLoadMax Pmax p fp (cs ! j) \<noteq> No_Merge
         \<and> length cs' = length cs
         \<and> (\<forall>k < length cs. k \<noteq> j \<longrightarrow> cs' ! k = cs ! k)
         \<and> plant_orig (cs' ! j) = plant_orig (cs ! j) @ [i]
         \<and> (method \<in> set [''Standard'', ''MILP''] \<longrightarrow>
              num (merged (cs' ! j)) key
                = min (num (merged (cs ! j)) key * num (merged (cs ! j)) ''PowerCapacity'')
                      (num p key * num p ''PowerCapacity'')
                  / (num (merged (cs ! j)) ''PowerCapacity'' + num p ''PowerCapacity''))
         \<and> (method = ''LP clustered'' \<longrightarrow> num (merged (cs' ! j)) key = 0)"
proof -
  from try_merge_Some [OF assms(1)] obtain j m' where
    j: "j < length cs"
    and b: "\<forall>k < j. branch_of method OnlyOnes PartLoadMax Pmax p fp (cs ! k) = No_Merge"
    and nb: "branch_of method OnlyOnes PartLoadMax Pmax p fp (cs ! j) \<noteq> No_Merge"
    and m: "merge_with (branch_of method OnlyOnes PartLoadMax Pmax p fp (cs ! j)) cols
                 (merged (cs ! j)) p = Inr m'"
    and e: "cs' = cs[j := (cs ! j)\<lparr>merged := m', plant_orig := plant_orig (cs ! j) @ [i]\<rparr>]"
    by blast
  have cj: "cs' ! j = (cs ! j)\<lparr>merged := m', plant_orig := plant_orig (cs ! j) @ [i]\<rparr>"
    using j by (simp add: e)
  note mk = merge_with_min_keys [OF m nb assms(2,3)]
  have "length cs' = length cs" by (simp add: e)
  moreover have "\<forall>k < length cs. k \<noteq> j \<longrightarrow> cs' ! k = cs ! k" by (simp add: e)
  moreover have "plant_orig (cs' ! j) = plant_orig (cs ! j) @ [i]" by (simp add: cj)
  moreover have "merged (cs' ! j) = m'" by (simp add: cj)
  ultimately show ?thesis using j b nb mk by auto
qed

lemma check_method_columns:
  "check_method method plants = Inr (plants1, OnlyOnes, warnings) \<Longrightarrow>
   columns plants1 = columns plants"
  by (auto simp: check_method_def Let_def expand_Nunits_def split: if_splits)

lemma check_method_Standard_rows:
  "method \<in> set [''Standard'', ''MILP''] \<Longrightarrow>
   check_method method plants = Inr (plants1, OnlyOnes, warnings) \<Longrightarrow> plants1 = plants"
  by (auto simp: check_method_def Let_def split: if_splits)

lemma default_Nunits_num:
  "k < length (rows plants) \<Longrightarrow> key \<noteq> ''Nunits'' \<Longrightarrow>
   num (rows (default_Nunits plants) ! k) key = num (rows plants ! k) key"
  by (simp add: default_Nunits_def set_column_def)

lemma postprocess_length:
  assumes "postprocess method cols ps = Inr ps'"
  shows "length ps' = length ps"
  using postprocess_Unit [OF assms] by (metis length_map)

lemma postprocess_min_keys:
  assumes "postprocess method cols ps = Inr ps'"
    and "method \<noteq> ''Integer clustering''"
    and "key = ''PartLoadMin'' \<or> key = ''StartUpTime''"
    and "k < length ps"
  shows "num (ps' ! k) key = num (ps ! k) key"
proof (cases "method = ''LP clustered''")
  case True
  with assms(1) have "ps' = map ramping_row ps" by (simp add: LP_postprocess_Inr)
  moreover have "key \<noteq> ''RampingCost''" using assms(3) by auto
  ultimately show ?thesis using assms(4) by (simp add: ramping_row_cells)
next
  case False
  with assms(1,2) show ?thesis by (simp add: postprocess_def)
qed

lemma two_rows_merged:
  assumes rows0: "rows plants0 = [p0, p1]"
    and run: "clustering san plants0 method Nslices PartLoadMax Pmax = Inr (out, mp, lg)"
    and one: "length (rows out) = 1"
    and key: "key = ''PartLoadMin'' \<or> key = ''StartUpTime''"
  shows "(method \<in> set [''Standard'', ''MILP''] \<longrightarrow>
            num (rows out ! 0) key
              = min (num p0 key * num p0 ''PowerCapacity'') (num p1 key * num p1 ''PowerCapacity'')
                / (num p0 ''PowerCapacity'' + num p1 ''PowerCapacity''))
       \<and> (method = ''LP clustered'' \<longrightarrow> num (rows out ! 0) key = 0)"
proof -
  from run obtain plants1 OnlyOnes warnings fps plants cs final where
    cr: "check_required plants0 = None"
    and cm: "check_method method (default_Nunits plants0) = Inr (plants1, OnlyOnes, warnings)"
    and fp: "sequence (map (fingerprint Nslices) (rows plants1)) = Inr fps"
    and fi: "fillna_frame plants1 = Inr plants"
    and ml: "merge_loop method OnlyOnes PartLoadMax Pmax (columns plants)
       (zip [0..<length (rows plants)] (zip (rows plants) fps)) [] = Inr cs"
    and pp: "postprocess method (columns plants) (fst (resolve_names san cs empty_mapping)) = Inr final"
    and out: "out = \<lparr>columns = columns plants, rows = final\<rparr>"
    by (rule clustering_Inr)
  let ?P = "default_Nunits plants0"
  have pl: "plants = plants1\<lparr>rows := map fillna_plant (rows plants1)\<rparr>"
    using fillna_frame_Inr [OF fi] by simp
  have l1: "length (rows plants1) = 2"
    using check_method_length [OF cm] by (simp add: default_Nunits_length rows0)
  then obtain r0 r1 where r: "rows plants1 = [r0, r1]"
    by (auto simp: length_Suc_conv numeral_2_eq_2)
  have "length fps = 2" using sequence_length [OF fp] l1 by simp
  then obtain f0 f1 where f: "fps = [f0, f1]"
    by (auto simp: length_Suc_conv numeral_2_eq_2)
  let ?q0 = "fillna_plant r0" and ?q1 = "fillna_plant r1"
  let ?c0 = "\<lparr>merged = ?q0, plant_orig = [0], fingerprint_merged = f0\<rparr>"
  have todo: "zip [0..<length (rows plants)] (zip (rows plants) fps) = [(0, ?q0, f0), (1, ?q1, f1)]"
    by (simp add: pl r f numeral_2_eq_2)
  have kc: "key \<in> set (columns plants)"
  proof -
    have "key \<in> set required_inputs" using key by (auto simp: required_inputs_def)
    with check_required_None [OF cr] have "key \<in> set (columns plants0)" by blast
    then have "key \<in> set (columns ?P)" by (auto simp: default_Nunits_def set_column_def)
    then show ?thesis by (simp add: pl check_method_columns [OF cm])
  qed
  have mn: "method \<noteq> ''Integer clustering'' \<Longrightarrow> num (rows out ! 0) key
              = num (fst (resolve_names san cs empty_mapping) ! 0) key"
  proof -
    assume m: "method \<noteq> ''Integer clustering''"
    have "0 < length (fst (resolve_names san cs empty_mapping))"
      using postprocess_length [OF pp] one by (simp add: out)
    from postprocess_min_keys [OF pp m key this] show ?thesis by (simp add: out)
  qed
  have lcs: "length cs = 1"
    using postprocess_length [OF pp] one by (simp add: out resolve_names_rows)
  have nm: "num (fst (resolve_names san cs empty_mapping) ! 0) key = num (merged (cs ! 0)) key"
    using lcs by (simp add: resolve_names_rows)
  from ml have ml2: "merge_loop method OnlyOnes PartLoadMax Pmax (columns plants)
       [(1, ?q1, f1)] [?c0] = Inr cs"
    by (simp add: todo)
  obtain cs' where
    tm: "try_merge method OnlyOnes PartLoadMax Pmax (columns plants) 1 ?q1 f1 [?c0] = Inr (Some cs')"
    and cs: "cs = cs'"
  proof (cases "try_merge method OnlyOnes PartLoadMax Pmax (columns plants) 1 ?q1 f1 [?c0]")
    case (Inl e)
    with ml2 show ?thesis by simp
  next
    case (Inr x)
    show ?thesis
    proof (cases x)
      case None
      with Inr ml2 lcs show ?thesis by auto
    next
      case (Some cs')
      with Inr ml2 that show ?thesis by simp
    qed
  qed
  from try_merge_min_keys [OF tm key kc] have
    std: "method \<in> set [''Standard'', ''MILP''] \<longrightarrow>
              num (merged (cs ! 0)) key
                = min (num ?q0 key * num ?q0 ''PowerCapacity'') (num ?q1 key * num ?q1 ''PowerCapacity'')
                  / (num ?q0 ''PowerCapacity'' + num ?q1 ''PowerCapacity'')"
    and lp: "method = ''LP clustered'' \<longrightarrow> num (merged (cs ! 0)) key = 0"
    by (auto simp: cs)
  have q: "num ?q0 = num r0" "num ?q1 = num r1" by (simp_all add: fillna_plant_def)
  show ?thesis
  proof (intro conjI impI)
    assume m: "method \<in> set [''Standard'', ''MILP'']"
    then have mi: "method \<noteq> ''Integer clustering''" by auto
    have "plants1 = ?P" using m cm by (rule check_method_Standard_rows)
    with r have rp: "rows ?P = [r0, r1]" by simp
    have kn: "key \<noteq> ''Nunits''" using key by auto
    have n0: "num r0 key = num p0 key" "num r0 ''PowerCapacity'' = num p0 ''PowerCapacity''"
      using default_Nunits_num [of 0 plants0 key] default_Nunits_num [of 0 plants0 "''PowerCapacity''"] kn
      by (simp_all add: rp rows0)
    have n1: "num r1 key = num p1 key" "num r1 ''PowerCapacity'' = num p1 ''PowerCapacity''"
      using default_Nunits_num [of 1 plants0 key] default_Nunits_num [of 1 plants0 "''PowerCapacity''"] kn
      by (simp_all add: rp rows0)
    from std m have "num (merged (cs ! 0)) key
                = min (num p0 key * num p0 ''PowerCapacity'') (num p1 key * num p1 ''PowerCapacity'')
                  / (num p0 ''PowerCapacity'' + num p1 ''PowerCapacity'')"
      by (simp only: q n0 n1)
    with mn [OF mi] nm show "num (rows out ! 0) key
              = min (num p0 key * num p0 ''PowerCapacity'') (num p1 key * num p1 ''PowerCapacity'')
                / (num p0 ''PowerCapacity'' + num p1 ''PowerCapacity'')"
      by simp
  next
    assume m: "method = ''LP clustered''"
    then have mi: "method \<noteq> ''Integer clustering''" by simp
    from lp m mn [OF mi] nm show "num (rows out ! 0) key = 0" by simp
  qed
qed

text \<open>
  Claim C6. When plant \<open>i\<close> merges in the inner loop, it merges into the first cluster
  \<open>j\<close> whose branch is taken; the other clusters stay as they are, cluster \<open>j\<close> takes
  the index \<open>i\<close>, and its cells \<^verbatim>\<open>PartLoadMin\<close> and \<^verbatim>\<open>StartUpTime\<close> become, under
  \<^verbatim>\<open>Standard\<close> and \<^verbatim>\<open>MILP\<close>, the minimum of the old value times the old capacity
  and the new value times the added capacity, divided by the sum of the two capacities,
  and under \<^verbatim>\<open>LP clustered\<close> zero; the outer loop goes on with these clusters. For
  the whole function: a table of two plants that comes out as one row has, in these two
  columns, that blend of its two rows under \<^verbatim>\<open>Standard\<close> and \<^verbatim>\<open>MILP\<close>, and zero
  under \<^verbatim>\<open>LP clustered\<close>.
\<close>

theorem C6_min_blend_or_zero:
  assumes "key \<in> set [''PartLoadMin'', ''StartUpTime'']"
  shows "(key \<in> set cols
          \<and> try_merge method OnlyOnes PartLoadMax Pmax cols i p fp cs = Inr (Some cs') \<longrightarrow>
            (\<exists>j < length cs.
               (\<forall>k < j. branch_of method OnlyOnes PartLoadMax Pmax p fp (cs ! k) = No_Merge)
             \<and> branch_of method OnlyOnes PartLoadMax Pmax p fp (cs ! j) \<noteq> No_Merge
             \<and> length cs' = length cs
             \<and> (\<forall>k < length cs. k \<noteq> j \<longrightarrow> cs' ! k = cs ! k)
             \<and> plant_orig (cs' ! j) = plant_orig (cs ! j) @ [i]
             \<and> (method \<in> set [''Standard'', ''MILP''] \<longrightarrow>
                  num (merged (cs' ! j)) key
                    = min (num (merged (cs ! j)) key * num (merged (cs ! j)) ''PowerCapacity'')
                          (num p key * num p ''PowerCapacity'')
                      / (num (merged (cs ! j)) ''PowerCapacity'' + num p ''PowerCapacity''))
             \<and> (method = ''LP clustered'' \<longrightarrow> num (merged (cs' ! j)) key = 0))
          \<and> merge_loop method OnlyOnes PartLoadMax Pmax cols ((i, p, fp) # rest) cs
              = merge_loop method OnlyOnes PartLoadMax Pmax cols rest cs')
       \<and> (rows plants0 = [p0, p1]
          \<and> clustering san plants0 method Nslices PartLoadMax Pmax = Inr (out, mp, lg)
          \<and> length (rows out) = 1 \<longrightarrow>
            (method \<in> set [''Standard'', ''MILP''] \<longrightarrow>
               num (rows out ! 0) key
                 = min (num p0 key * num p0 ''PowerCapacity'') (num p1 key * num p1 ''PowerCapacity'')
                   / (num p0 ''PowerCapacity'' + num p1 ''PowerCapacity''))
          \<and> (method = ''LP clustered'' \<longrightarrow> num (rows out ! 0) key = 0))"
proof -
  have k: "key = ''PartLoadMin'' \<or> key = ''StartUpTime''" using assms by simp
  show ?thesis
  proof (intro conjI impI)
    assume a: "key \<in> set cols
          \<and> try_merge method OnlyOnes PartLoadMax Pmax cols i p fp cs = Inr (Some cs')"
    then have kc: "key \<in> set cols"
      and tm: "try_merge method OnlyOnes PartLoadMax Pmax cols i p fp cs = Inr (Some cs')"
      by simp_all
    from try_merge_min_keys [OF tm k kc]
    show "\<exists>j < length cs.
               (\<forall>k < j. branch_of method OnlyOnes PartLoadMax Pmax p fp (cs ! k) = No_Merge)
             \<and> branch_of method OnlyOnes PartLoadMax Pmax p fp (cs ! j) \<noteq> No_Merge
             \<and> length cs' = length cs
             \<and> (\<forall>k < length cs. k \<noteq> j \<longrightarrow> cs' ! k = cs ! k)
             \<and> plant_orig (cs' ! j) = plant_orig (cs ! j) @ [i]
             \<and> (method \<in> set [''Standard'', ''MILP''] \<longrightarrow>
                  num (merged (cs' ! j)) key
                    = min (num (merged (cs ! j)) key * num (merged (cs ! j)) ''PowerCapacity'')
                          (num p key * num p ''PowerCapacity'')
                      / (num (merged (cs ! j)) ''PowerCapacity'' + num p ''PowerCapacity''))
             \<and> (method = ''LP clustered'' \<longrightarrow> num (merged (cs' ! j)) key = 0)" .
    show "merge_loop method OnlyOnes PartLoadMax Pmax cols ((i, p, fp) # rest) cs
              = merge_loop method OnlyOnes PartLoadMax Pmax cols rest cs'"
      by (simp add: tm)
  next
    assume a: "rows plants0 = [p0, p1]
          \<and> clustering san plants0 method Nslices PartLoadMax Pmax = Inr (out, mp, lg)
          \<and> length (rows out) = 1"
    then have r: "rows plants0 = [p0, p1]"
      and run: "clustering san plants0 method Nslices PartLoadMax Pmax = Inr (out, mp, lg)"
      and one: "length (rows out) = 1"
      by simp_all
    note t = two_rows_merged [OF r run one k]
    { assume "method \<in> set [''Standard'', ''MILP'']"
      with t show "num (rows out ! 0) key
                 = min (num p0 key * num p0 ''PowerCapacity'') (num p1 key * num p1 ''PowerCapacity'')
                   / (num p0 ''PowerCapacity'' + num p1 ''PowerCapacity'')"
        by blast }
    { assume "method = ''LP clustered''"
      with t show "num (rows out ! 0) key = 0" by blast }
  qed
qed

lemma blend_frame_runs:
  "\<exists>out mp lg. clustering shrink_to_64 blend_frame ''Standard'' 1 (1 / 10) 30 = Inr (out, mp, lg)
     \<and> length (rows out) = 1"
  "\<exists>out mp lg. clustering shrink_to_64 blend_frame ''LP clustered'' 1 (1 / 10) 30 = Inr (out, mp, lg)
     \<and> length (rows out) = 1"
  by (simp_all add: blend_frame_def run_defs test_defs example_defs Let_def)

lemma blend_try_merge:
  "\<exists>cs'. try_merge ''Standard'' True (1 / 10) 30 example_columns 1
            (example_plant ''B'' ''Z'' 1 20 (1 / 2) 7) (replicate 9 0)
            [example_cluster (example_plant ''A'' ''Z'' 1 10 (1 / 5) 5) 0] = Inr (Some cs')"
  by (simp add: test_defs example_defs merge_with_def merge_standard_def)

theorem C6_witness:
  "''PartLoadMin'' \<in> set [''PartLoadMin'', ''StartUpTime'']
   \<and> (\<exists>cs'. try_merge ''Standard'' True (1 / 10) 30 example_columns 1
            (example_plant ''B'' ''Z'' 1 20 (1 / 2) 7) (replicate 9 0)
            [example_cluster (example_plant ''A'' ''Z'' 1 10 (1 / 5) 5) 0] = Inr (Some cs')
        \<and> num (merged (cs' ! 0)) ''PartLoadMin'' = 1 / 15
        \<and> plant_orig (cs' ! 0) = [0, 1])
   \<and> (\<exists>out mp lg. clustering shrink_to_64 blend_frame ''Standard'' 1 (1 / 10) 30 = Inr (out, mp, lg)
        \<and> length (rows out) = 1 \<and> num (rows out ! 0) ''PartLoadMin'' = 1 / 15)
   \<and> (\<exists>out mp lg. clustering shrink_to_64 blend_frame ''LP clustered'' 1 (1 / 10) 30 = Inr (out, mp, lg)
        \<and> length (rows out) = 1 \<and> num (rows out ! 0) ''PartLoadMin'' = 0)"
proof -
  let ?A = "example_plant ''A'' ''Z'' 1 10 (1 / 5) 5"
  let ?B = "example_plant ''B'' ''Z'' 1 20 (1 / 2) 7"
  have k: "''PartLoadMin'' \<in> set [''PartLoadMin'', ''StartUpTime'']" by simp
  have kc: "''PartLoadMin'' \<in> set example_columns" by (simp add: example_defs)
  have r: "rows blend_frame = [?A, ?B]" by (simp add: blend_frame_def)
  have v: "min (num ?A ''PartLoadMin'' * num ?A ''PowerCapacity'')
               (num ?B ''PartLoadMin'' * num ?B ''PowerCapacity'')
           / (num ?A ''PowerCapacity'' + num ?B ''PowerCapacity'') = 1 / 15"
    by (simp add: example_plant_def)
  from blend_try_merge obtain cs' where
    tm: "try_merge ''Standard'' True (1 / 10) 30 example_columns 1 ?B (replicate 9 0)
            [example_cluster ?A 0] = Inr (Some cs')"
    by (elim exE)
  from C6_min_blend_or_zero [OF k, THEN conjunct1, THEN mp, OF conjI, OF kc tm, THEN conjunct1]
  obtain j where j: "j < length [example_cluster ?A 0]"
    and o: "plant_orig (cs' ! j) = plant_orig ([example_cluster ?A 0] ! j) @ [1]"
    and b: "''Standard'' \<in> set [''Standard'', ''MILP''] \<longrightarrow>
                  num (merged (cs' ! j)) ''PartLoadMin''
                    = min (num (merged ([example_cluster ?A 0] ! j)) ''PartLoadMin''
                             * num (merged ([example_cluster ?A 0] ! j)) ''PowerCapacity'')
                          (num ?B ''PartLoadMin'' * num ?B ''PowerCapacity'')
                      / (num (merged ([example_cluster ?A 0] ! j)) ''PowerCapacity''
                           + num ?B ''PowerCapacity'')"
    by (elim exE conjE)
  from j have j0: "j = 0" by simp
  have p1: "num (merged (cs' ! 0)) ''PartLoadMin'' = 1 / 15"
    using b v by (simp add: j0 example_cluster_def)
  have p2: "plant_orig (cs' ! 0) = [0, 1]"
    using o by (simp add: j0 example_cluster_def)
  from blend_frame_runs(1) obtain out mp lg where
    run: "clustering shrink_to_64 blend_frame ''Standard'' 1 (1 / 10) 30 = Inr (out, mp, lg)"
    and one: "length (rows out) = 1"
    by (elim exE conjE)
  from C6_min_blend_or_zero [OF k, THEN conjunct2, THEN mp, OF conjI, OF r conjI, OF run one,
      THEN conjunct1]
  have s: "num (rows out ! 0) ''PartLoadMin'' = 1 / 15"
    using v by simp
  from blend_frame_runs(2) obtain out' mp' lg' where
    run': "clustering shrink_to_64 blend_frame ''LP clustered'' 1 (1 / 10) 30 = Inr (out', mp', lg')"
    and one': "length (rows out') = 1"
    by (elim exE conjE)
  from C6_min_blend_or_zero [OF k, THEN conjunct2, THEN mp, OF conjI, OF r conjI, OF run' one',
      THEN conjunct2]
  have z: "num (rows out' ! 0) ''PartLoadMin'' = 0"
    by simp
  from k tm p1 p2 run one s run' one' z show ?thesis by blast
qed

end
